theory Spec2Isabelle
  imports Complex_Main "HOL-Library.AList" "HOL-Library.Char_ord" "HOL-Library.List_Lexorder"
    "HOL-Library.Sublist"
begin

section \<open>Log entries and their record encoding (logger.go)\<close>

text \<open>
  \<^verbatim>\<open>encoding/json\<close> is modelled at the level of the JSON value it writes, not of the
  bytes: an object is the list of its members in output order, a string is the text it
  denotes once the escapes are read back.
\<close>

datatype json =
    JNull
  | JBool bool
  | JInt int
  | JNum real
  | JStr string
  | JArr "json list"
  | JObj "(string \<times> json) list"

datatype error =
    ErrLoggerClosed
  | ErrMarshal
  | ErrOpenFile
  | ErrOpenDatabase
  | ErrFileClosed
  | ErrDatabaseClosed
  | ErrNoSuchTable
  | ErrBadArgument
  | ErrNegativeLimit

text \<open>
  A \<^verbatim>\<open>float64\<close>: a finite number, carried as a real (no statement below computes with
  one), or one of the three values that are no numbers.
\<close>

datatype float64 = Finite real | NaN | PosInf | NegInf

text \<open>
  A value of Go type \<^verbatim>\<open>interface{}\<close> as it occurs among custom fields: nil, a boolean, an
  integer, a float, a string, a slice, a map with string keys, or a value of a kind
  \<^verbatim>\<open>encoding/json\<close> has no encoding for (a channel, a function, a complex number).
\<close>

datatype goval =
    VNil
  | VBool bool
  | VInt int
  | VFloat float64
  | VString string
  | VSlice "goval list"
  | VMap "(string \<times> goval) list"
  | VOther

text \<open>
  \<^verbatim>\<open>utf8.DecodeRuneInString\<close>, as far as the encoder uses it: the width of the well-formed
  UTF-8 sequence a string starts with, \<open>None\<close> where Go returns \<^verbatim>\<open>(RuneError, 1)\<close>. The
  second byte has to lie in the range the first byte admits, the further ones between
  \<^verbatim>\<open>0x80\<close> and \<^verbatim>\<open>0xBF\<close>.
\<close>

definition byte_in :: "nat \<Rightarrow> nat \<Rightarrow> char \<Rightarrow> bool" where
  "byte_in lo hi c \<longleftrightarrow> lo \<le> (of_char c :: nat) \<and> (of_char c :: nat) \<le> hi"

fun continuation :: "nat \<Rightarrow> string \<Rightarrow> bool" where
  "continuation 0 s = True"
| "continuation (Suc n) [] = False"
| "continuation (Suc n) (c # cs) = (byte_in 0x80 0xBF c \<and> continuation n cs)"

definition accept :: "nat \<Rightarrow> nat \<Rightarrow> nat \<Rightarrow> string \<Rightarrow> nat option" where
  "accept sz lo hi rest =
     (if length rest < sz - 1 then None
      else
        (case rest of
           [] \<Rightarrow> None
         | s1 # more \<Rightarrow>
             if byte_in lo hi s1 \<and> continuation (sz - 2) more then Some sz else None))"

definition DecodeRune_width :: "string \<Rightarrow> nat option" where
  "DecodeRune_width s =
     (case s of
        [] \<Rightarrow> None
      | s0 # rest \<Rightarrow>
          (let b = (of_char s0 :: nat) in
           if b < 0x80 then Some 1
           else if b < 0xC2 then None
           else if b < 0xE0 then accept 2 0x80 0xBF rest
           else if b = 0xE0 then accept 3 0xA0 0xBF rest
           else if b < 0xED then accept 3 0x80 0xBF rest
           else if b = 0xED then accept 3 0x80 0x9F rest
           else if b < 0xF0 then accept 3 0x80 0xBF rest
           else if b = 0xF0 then accept 4 0x90 0xBF rest
           else if b < 0xF4 then accept 4 0x80 0xBF rest
           else if b = 0xF4 then accept 4 0x80 0x8F rest
           else None))"

text \<open>
  The text of a JSON string as the encoder writes it: the bytes of the Go string, with
  every byte at which no well-formed sequence starts replaced by U+FFFD (\<^verbatim>\<open>EF BF BD\<close>).
  \<open>coerce_from k\<close> still has \<open>k\<close> bytes of an accepted sequence to copy. (The escapes the
  encoder writes for quotes, control characters and \<^verbatim>\<open><\<close>, \<^verbatim>\<open>>\<close>, \<^verbatim>\<open>&\<close> do not change the
  text denoted.)
\<close>

fun coerce_from :: "nat \<Rightarrow> string \<Rightarrow> string" where
  "coerce_from k [] = []"
| "coerce_from (Suc k) (c # cs) = c # coerce_from k cs"
| "coerce_from 0 (c # cs) =
     (case DecodeRune_width (c # cs) of
        None \<Rightarrow> [CHR 0xEF, CHR 0xBF, CHR 0xBD] @ coerce_from 0 cs
      | Some n \<Rightarrow> c # coerce_from (n - 1) cs)"

definition coerce_utf8 :: "string \<Rightarrow> string" where
  "coerce_utf8 s = coerce_from 0 s"

text \<open>
  \<^verbatim>\<open>json.Marshal\<close> of a value: it fails on a float that is no number and on a value of an
  unsupported kind, wherever it sits; the members of a map come sorted by key, compared
  as the raw Go strings.
\<close>

fun encode :: "goval \<Rightarrow> error + json"
  and encode_list :: "goval list \<Rightarrow> error + json list"
  and encode_members :: "(string \<times> goval) list \<Rightarrow> error + (string \<times> json) list" where
  "encode VNil = Inr JNull"
| "encode (VBool b) = Inr (JBool b)"
| "encode (VInt n) = Inr (JInt n)"
| "encode (VFloat f) = (case f of Finite r \<Rightarrow> Inr (JNum r) | _ \<Rightarrow> Inl ErrMarshal)"
| "encode (VString s) = Inr (JStr (coerce_utf8 s))"
| "encode (VSlice vs) =
     (case encode_list vs of Inl e \<Rightarrow> Inl e | Inr js \<Rightarrow> Inr (JArr js))"
| "encode (VMap kvs) =
     (case encode_members kvs of
        Inl e \<Rightarrow> Inl e
      | Inr ms \<Rightarrow> Inr (JObj (map (\<lambda>(k, j). (coerce_utf8 k, j)) (sort_key fst ms))))"
| "encode VOther = Inl ErrMarshal"
| "encode_list [] = Inr []"
| "encode_list (v # vs) =
     (case encode v of
        Inl e \<Rightarrow> Inl e
      | Inr j \<Rightarrow> (case encode_list vs of Inl e \<Rightarrow> Inl e | Inr js \<Rightarrow> Inr (j # js)))"
| "encode_members [] = Inr []"
| "encode_members ((k, v) # kvs) =
     (case encode v of
        Inl e \<Rightarrow> Inl e
      | Inr j \<Rightarrow>
          (case encode_members kvs of Inl e \<Rightarrow> Inl e | Inr ms \<Rightarrow> Inr ((k, j) # ms)))"

text \<open>The values \<^verbatim>\<open>json.Marshal\<close> accepts.\<close>

fun supported :: "goval \<Rightarrow> bool" where
  "supported (VFloat f) = (case f of Finite r \<Rightarrow> True | _ \<Rightarrow> False)"
| "supported (VSlice vs) = list_all supported vs"
| "supported (VMap kvs) = list_all (\<lambda>kv. supported (snd kv)) kvs"
| "supported VOther = False"
| "supported _ = True"

text \<open>
  \<^verbatim>\<open>type LogEntry struct\<close>. A Go map is \<^verbatim>\<open>nil\<close> (\<open>None\<close>) or a finite map, kept as
  an association list that is only changed through \<open>AList.update\<close>.
\<close>

record LogEntry =
  Method :: string
  Path :: string
  ClientIP :: string
  UserAgent :: string
  StatusCode :: int
  Duration :: float64
  Timestamp :: string
  CustomFields :: "(string \<times> goval) list option"

text \<open>
  \<^verbatim>\<open>NewLogEntry\<close>: the duration arrives in nanoseconds and is stored in milliseconds; the
  quotient of two finite numbers is finite.
\<close>

definition NewLogEntry ::
  "string \<Rightarrow> string \<Rightarrow> string \<Rightarrow> string \<Rightarrow> int \<Rightarrow> int \<Rightarrow> string \<Rightarrow> LogEntry" where
  "NewLogEntry method path clientIP userAgent statusCode duration timestamp =
     \<lparr> Method = method, Path = path, ClientIP = clientIP, UserAgent = userAgent,
       StatusCode = statusCode, Duration = Finite (real_of_int duration / 1000000),
       Timestamp = timestamp, CustomFields = None \<rparr>"

text \<open>
  \<^verbatim>\<open>json.Marshal\<close> of a \<^verbatim>\<open>map[string]interface{}\<close>: \<^verbatim>\<open>null\<close> for the nil map, otherwise
  the encoding of the map.
\<close>

definition marshal_map :: "(string \<times> goval) list option \<Rightarrow> error + json" where
  "marshal_map m = (case m of None \<Rightarrow> Inr JNull | Some kvs \<Rightarrow> encode (VMap kvs))"

text \<open>
  \<^verbatim>\<open>omitempty\<close> on a map-typed field: the field is left out when the map is nil or has no
  entry.
\<close>

definition omitempty_map ::
  "string \<Rightarrow> (string \<times> goval) list option \<Rightarrow> (string \<times> goval) list" where
  "omitempty_map key m =
     (case m of None \<Rightarrow> [] | Some kvs \<Rightarrow> if kvs = [] then [] else [(key, VMap kvs)])"

text \<open>
  \<^verbatim>\<open>(*LogEntry).MarshalJSON\<close>: marshals an anonymous struct embedding the entry under an
  alias type, that is, the entry's own fields under their struct tags, in declaration
  order, each encoded as a value of its type. The error of \<^verbatim>\<open>json.Marshal\<close> is the error of
  the method.
\<close>

definition MarshalJSON :: "LogEntry \<Rightarrow> error + json" where
  "MarshalJSON l =
     (case encode_members
             ([ (''method'', VString (Method l)),
                (''path'', VString (Path l)),
                (''client_ip'', VString (ClientIP l)),
                (''user_agent'', VString (UserAgent l)),
                (''status_code'', VInt (StatusCode l)),
                (''duration_ms'', VFloat (Duration l)),
                (''timestamp'', VString (Timestamp l)) ]
              @ omitempty_map ''custom_fields'' (CustomFields l)) of
        Inl e \<Rightarrow> Inl e
      | Inr ms \<Rightarrow> Inr (JObj ms))"

text \<open>
  \<^verbatim>\<open>json.Marshal(entry)\<close> for \<^verbatim>\<open>entry *LogEntry\<close>: a nil pointer whose type implements
  \<^verbatim>\<open>json.Marshaler\<close> encodes as \<^verbatim>\<open>null\<close> without calling the method.
\<close>

definition json_Marshal :: "LogEntry option \<Rightarrow> error + json" where
  "json_Marshal entry = (case entry of None \<Rightarrow> Inr JNull | Some l \<Rightarrow> MarshalJSON l)"

section \<open>Configuration (config.go)\<close>

definition DefaultTimeFormat :: string where
  "DefaultTimeFormat = ''2006-01-02T15:04:05.000Z07:00''"

text \<open>
  \<^verbatim>\<open>type Config struct\<close>, without its embedded lock: the model is sequential, a value of
  this record is the content of the shared object at one instant.
\<close>

record Config =
  Enabled :: bool
  SkipPaths :: "string list"
  cfg_CustomFields :: "(string \<times> goval) list option"
  TimeFormat :: string
  Async :: bool
  BufferSize :: int

definition DefaultConfig :: Config where
  "DefaultConfig =
     \<lparr> Enabled = True,
       SkipPaths = [''/health'', ''/metrics'',
                    ''/.well-known/appspecific/com.chrome.devtools.json''],
       cfg_CustomFields = None,
       TimeFormat = DefaultTimeFormat,
       Async = True,
       BufferSize = 1000 \<rparr>"


section \<open>The request middleware (RequestLoggerWithConfig, GetLogEntry, SetLogField)\<close>

text \<open>
  What the middleware reads of \<^verbatim>\<open>gin.Context\<close>: the request (method, URL path, user
  agent, the unread content of the body, \<open>None\<close> for a nil body), the client address
  that \<^verbatim>\<open>c.ClientIP()\<close> reports, the status of the response writer, and the key/value
  store of the context. A value of the store is an \<^verbatim>\<open>interface{}\<close>: a \<^verbatim>\<open>*LogEntry\<close> or
  something else. Entries are held by value: the pointer stored under a key is represented
  by the entry it points to. In Go the context and the logger share one entry after the
  hand-over; here a change made through the context afterwards does not reach the logger's
  copy. No statement below is about a change made after the hand-over.
\<close>

record Request =
  req_Method :: string
  req_Path :: string
  req_UserAgent :: string
  req_Body :: "string option"

datatype ctxval = EntryPtr LogEntry | OtherVal goval

record Context =
  Request :: Request
  ctx_ClientIP :: string
  Status :: int
  Keys :: "string \<rightharpoonup> ctxval"

definition logEntryKey :: string where
  "logEntryKey = ''req_log_entry''"

text \<open>\<^verbatim>\<open>c.Set(key, value)\<close>.\<close>

definition ctx_Set :: "Context \<Rightarrow> string \<Rightarrow> ctxval \<Rightarrow> Context" where
  "ctx_Set c k v = c\<lparr>Keys := (Keys c)(k \<mapsto> v)\<rparr>"

text \<open>\<^verbatim>\<open>GetLogEntry\<close>: the entry under the key, when there is one and it is a \<^verbatim>\<open>*LogEntry\<close>.\<close>

definition GetLogEntry :: "Context \<Rightarrow> LogEntry option" where
  "GetLogEntry c =
     (case Keys c logEntryKey of
        Some (EntryPtr logEntry) \<Rightarrow> Some logEntry
      | _ \<Rightarrow> None)"

text \<open>
  \<^verbatim>\<open>SetLogField\<close>: does nothing without an entry in the context; otherwise creates the
  map when it is nil and assigns the key.
\<close>

definition SetLogField :: "Context \<Rightarrow> string \<Rightarrow> goval \<Rightarrow> Context" where
  "SetLogField c key val =
     (case GetLogEntry c of
        None \<Rightarrow> c
      | Some entry \<Rightarrow>
          (let m = (case CustomFields entry of None \<Rightarrow> [] | Some kvs \<Rightarrow> kvs)
           in ctx_Set c logEntryKey
                (EntryPtr (entry\<lparr>CustomFields := Some (AList.update key val m)\<rparr>))))"

text \<open>
  The prologue of \<^verbatim>\<open>RequestLoggerWithConfig\<close>, run once when the middleware is built:
  the configuration object the returned handler is bound to.
\<close>

definition RequestLoggerWithConfig_cfg :: "Config option \<Rightarrow> Config" where
  "RequestLoggerWithConfig_cfg cfg =
     (let cfg1 = (case cfg of None \<Rightarrow> DefaultConfig | Some c \<Rightarrow> c);
          cfg2 = (if TimeFormat cfg1 = [] then cfg1\<lparr>TimeFormat := DefaultTimeFormat\<rparr> else cfg1);
          cfg3 = (if BufferSize cfg2 \<le> 0 then cfg2\<lparr>BufferSize := 1000\<rparr> else cfg2)
      in cfg3)"

text \<open>
  The loop over the skip paths: \<^verbatim>\<open>for _, sp := range skipPaths { if currentPath == sp ... }\<close>.
\<close>

fun skip_match :: "string \<Rightarrow> string list \<Rightarrow> bool" where
  "skip_match currentPath [] = False"
| "skip_match currentPath (sp # rest) =
     (if currentPath = sp then True else skip_match currentPath rest)"

text \<open>
  The copy of the custom-fields template into a fresh map:
  \<^verbatim>\<open>for k, v := range customFields { entry.CustomFields[k] = v }\<close>.
\<close>

definition copy_fields :: "(string \<times> goval) list \<Rightarrow> (string \<times> goval) list" where
  "copy_fields customFields = fold (\<lambda>(k, v) m. AList.update k v m) customFields []"

text \<open>
  The clock as the handler reads it: the time elapsed around the downstream chain, in
  nanoseconds, and the text \<^verbatim>\<open>time.Now().Format(layout)\<close> gives at completion.
\<close>

record Clock =
  elapsed :: int
  format_now :: "string \<Rightarrow> string"

text \<open>
  What one run of the handler leaves behind: the context, the state of the logger, and
  the goroutine started by the asynchronous branch, represented by the entry it is going
  to copy and write.
\<close>

record 'l Outcome =
  out_ctx :: Context
  out_logger :: 'l
  out_spawned :: "LogEntry option"

text \<open>
  The handler returned by \<^verbatim>\<open>RequestLoggerWithConfig\<close>. \<open>write\<close> is the \<^verbatim>\<open>Write\<close> method
  of the logger behind the interface, \<open>cfg\<close> the content of the configuration object when
  the request arrives (the snapshot taken under the read lock), \<open>next\<close> the rest of the
  handler chain, run by \<^verbatim>\<open>c.Next()\<close>, taken as a function that returns (a chain that
  panics unwinds through the handler, which has no \<^verbatim>\<open>recover\<close>). The error of a synchronous
  write is discarded, as in the source.
\<close>

definition RequestLoggerWithConfig ::
  "('l \<Rightarrow> LogEntry \<Rightarrow> 'e option \<times> 'l) \<Rightarrow> Config \<Rightarrow> Clock \<Rightarrow> (Context \<Rightarrow> Context)
     \<Rightarrow> 'l \<Rightarrow> Context \<Rightarrow> 'l Outcome" where
  "RequestLoggerWithConfig write cfg clock next logger c =
     (let isEnabled = Enabled cfg;
          skipPaths = SkipPaths cfg;
          customFields = cfg_CustomFields cfg;
          async = Async cfg;
          timeFormat = TimeFormat cfg
      in
      if \<not> isEnabled then
        \<lparr> out_ctx = next c, out_logger = logger, out_spawned = None \<rparr>
      else if length skipPaths > 0 \<and> skip_match (req_Path (Request c)) skipPaths then
        \<lparr> out_ctx = next c, out_logger = logger, out_spawned = None \<rparr>
      else
        (let bodyBytes = (case req_Body (Request c) of None \<Rightarrow> [] | Some b \<Rightarrow> b);
             c1 = (if req_Body (Request c) \<noteq> None
                   then c\<lparr>Request := (Request c)\<lparr>req_Body := Some bodyBytes\<rparr>\<rparr> else c);
             c2 = next c1;
             duration = elapsed clock;
             c3 = (if length bodyBytes > 0
                   then c2\<lparr>Request := (Request c2)\<lparr>req_Body := Some bodyBytes\<rparr>\<rparr> else c2);
             statusCode = Status c3;
             clientIP = ctx_ClientIP c3;
             userAgent = req_UserAgent (Request c3);
             entry0 = NewLogEntry (req_Method (Request c3)) (req_Path (Request c3))
                        clientIP userAgent statusCode duration (format_now clock timeFormat);
             entry = (case customFields of
                        None \<Rightarrow> entry0
                      | Some tmpl \<Rightarrow> entry0\<lparr>CustomFields := Some (copy_fields tmpl)\<rparr>);
             c4 = ctx_Set c3 logEntryKey (EntryPtr entry)
         in
         if async then
           \<lparr> out_ctx = c4, out_logger = logger, out_spawned = Some entry \<rparr>
         else
           \<lparr> out_ctx = c4, out_logger = snd (write logger entry), out_spawned = None \<rparr>))"

text \<open>The goroutine of the asynchronous branch, once it runs: \<^verbatim>\<open>logger.Write(&logCopy)\<close>.\<close>

definition run_spawned ::
  "('l \<Rightarrow> LogEntry \<Rightarrow> 'e option \<times> 'l) \<Rightarrow> 'l \<Rightarrow> LogEntry option \<Rightarrow> 'l" where
  "run_spawned write logger spawned =
     (case spawned of None \<Rightarrow> logger | Some entry \<Rightarrow> snd (write logger entry))"


section \<open>Channels and diagnostics\<close>

text \<open>
  A Go channel, as far as a sequential model can hold it: the buffered values in arrival
  order, the capacity, whether the channel has been closed, and whether a goroutine is
  parked at a receive on it. A parked receiver is what lets a send on a channel of
  capacity 0 go through: the sent value is handed to it, and it is no longer waiting.
  The value handed over is kept at the end of \<open>buf\<close> until the receiver's next step
  takes it.
\<close>

record 'a chan =
  buf :: "'a list"
  cap :: nat
  is_closed :: bool
  recv_waiting :: bool

datatype panic =
    SendOnClosedChannel
  | CloseOfClosedChannel
  | MakeChanSizeOutOfRange
  | NilPointerDereference

datatype 'a send_result = Sent "'a chan" | WouldBlock

text \<open>\<^verbatim>\<open>make(chan T, n)\<close> for \<open>n \<ge> 0\<close>.\<close>

definition make_chan :: "nat \<Rightarrow> 'a chan" where
  "make_chan n = \<lparr> buf = [], cap = n, is_closed = False, recv_waiting = False \<rparr>"

text \<open>A send can proceed without blocking: a receiver is parked, or a slot is free.\<close>

definition can_send :: "'a chan \<Rightarrow> bool" where
  "can_send ch \<longleftrightarrow> recv_waiting ch \<or> length (buf ch) < cap ch"

text \<open>
  \<^verbatim>\<open>select { case ch <- x: ... default: ... }\<close>: the send when it can proceed, the default
  branch (\<open>WouldBlock\<close>) otherwise; a send on a closed channel panics.
\<close>

definition try_send :: "'a chan \<Rightarrow> 'a \<Rightarrow> panic + 'a send_result" where
  "try_send ch x =
     (if is_closed ch then Inl SendOnClosedChannel
      else if can_send ch
        then Inr (Sent (ch\<lparr>buf := buf ch @ [x], recv_waiting := False\<rparr>))
      else Inr WouldBlock)"

text \<open>
  A receive that is ready: the oldest value (a non-nil pointer, \<open>Some x\<close>), or, on a
  channel that is closed and drained, the zero value (the nil pointer, \<open>None\<close>), again and
  again. \<open>None\<close> as the result means that the receive would block.
\<close>

definition try_recv :: "'a chan \<Rightarrow> ('a option \<times> 'a chan) option" where
  "try_recv ch =
     (case buf ch of
        x # rest \<Rightarrow> Some (Some x, ch\<lparr>buf := rest\<rparr>)
      | [] \<Rightarrow> if is_closed ch then Some (None, ch) else None)"

text \<open>\<^verbatim>\<open>close(ch)\<close>: wakes the receivers; closing twice panics.\<close>

definition close_chan :: "'a chan \<Rightarrow> panic + 'a chan" where
  "close_chan ch =
     (if is_closed ch then Inl CloseOfClosedChannel
      else Inr (ch\<lparr>is_closed := True, recv_waiting := False\<rparr>))"

text \<open>The lines the loggers print on the standard error stream.\<close>

datatype diag =
    BufferFull string string
  | WriteFailed error
  | FlushFailed error
  | InsertFailed error

section \<open>The file logger (FileLogger)\<close>

text \<open>
  The log file: the records appended so far, one per line, and whether the handle has
  been closed. A write fails only on a closed handle. The \<^verbatim>\<open>bufio.Writer\<close> of size 1
  passes every record (which is longer than one byte) straight to the file, so it holds
  nothing back and is not represented.
\<close>

record File =
  content :: "json list"
  file_closed :: bool

definition file_Write :: "File \<Rightarrow> json \<Rightarrow> error option \<times> File" where
  "file_Write f line =
     (if file_closed f then (Some ErrFileClosed, f)
      else (None, f\<lparr>content := content f @ [line]\<rparr>))"

definition file_Close :: "File \<Rightarrow> error option \<times> File" where
  "file_Close f =
     (if file_closed f then (Some ErrFileClosed, f) else (None, f\<lparr>file_closed := True\<rparr>))"

text \<open>
  \<^verbatim>\<open>type FileLogger struct\<close>. \<open>fl_bufferCh\<close> is \<open>None\<close> for a nil channel; \<open>fl_wg\<close> is the
  counter of the wait group, the number of writer goroutines that have not returned;
  \<open>fl_stderr\<close> collects the diagnostics. \<open>fl_mu\<close> says whether the mutex is held.
  \<^verbatim>\<open>Write\<close> and \<^verbatim>\<open>Close\<close> lock it on entry and unlock it on return; a call that returns
  is one step here, so between two steps the mutex is held only by a call that has not
  returned, and a call that finds it held waits for that one. The \<^verbatim>\<open>quit\<close> channel is
  never closed or sent to anywhere in the source, so the \<^verbatim>\<open>case <-l.quit\<close> of the writer
  is never ready and is left out.
\<close>

record FileLogger =
  fl_file :: File
  fl_bufferCh :: "LogEntry chan option"
  fl_wg :: nat
  fl_closed :: bool
  fl_mu :: bool
  fl_stderr :: "diag list"

definition FileLogger_startAsyncWriter :: "FileLogger \<Rightarrow> FileLogger" where
  "FileLogger_startAsyncWriter l = l\<lparr>fl_wg := fl_wg l + 1\<rparr>"

text \<open>
  \<^verbatim>\<open>NewFileLogger\<close>. \<open>opened\<close> is what \<^verbatim>\<open>os.OpenFile\<close> returned (\<open>None\<close>: an error). The
  channel is made whatever \<open>async\<close> says; \<open>async\<close> only decides whether the writer
  goroutine is started.
\<close>

definition NewFileLogger :: "File option \<Rightarrow> bool \<Rightarrow> int \<Rightarrow> panic + error + FileLogger" where
  "NewFileLogger opened async bufferSize =
     (case opened of
        None \<Rightarrow> Inr (Inl ErrOpenFile)
      | Some f \<Rightarrow>
          if bufferSize < 0 then Inl MakeChanSizeOutOfRange
          else
            (let logger = \<lparr> fl_file = f, fl_bufferCh = Some (make_chan (nat bufferSize)),
                             fl_wg = 0, fl_closed = False, fl_mu = False, fl_stderr = [] \<rparr>
             in Inr (Inr (if async then FileLogger_startAsyncWriter logger else logger))))"

text \<open>
  \<^verbatim>\<open>writeEntry\<close>: marshal the entry and append the line; when the entry cannot be
  marshalled, return that error and write nothing.
\<close>

definition FileLogger_writeEntry ::
  "FileLogger \<Rightarrow> LogEntry option \<Rightarrow> error option \<times> FileLogger" where
  "FileLogger_writeEntry l entry =
     (case json_Marshal entry of
        Inl err \<Rightarrow> (Some err, l)
      | Inr data \<Rightarrow>
          (let (err, f) = file_Write (fl_file l) data
           in (err, l\<lparr>fl_file := f\<rparr>)))"

text \<open>
  \<^verbatim>\<open>Write\<close>: \<^verbatim>\<open>l.mu.Lock()\<close> first, which does not return while the mutex is held (the
  result \<open>None\<close>: the call does not return); then the closed check; then, when the channel
  is not nil, the non-blocking send with the drop as default branch, and only for a nil
  channel the inline write. The deferred \<^verbatim>\<open>Unlock\<close> leaves the mutex free on return.
\<close>

definition FileLogger_Write ::
  "FileLogger \<Rightarrow> LogEntry \<Rightarrow> (panic + error option \<times> FileLogger) option" where
  "FileLogger_Write l entry =
     (if fl_mu l then None
      else if fl_closed l then Some (Inr (Some ErrLoggerClosed, l))
      else
        (case fl_bufferCh l of
           Some ch \<Rightarrow>
             (case try_send ch entry of
                Inl p \<Rightarrow> Some (Inl p)
              | Inr (Sent ch') \<Rightarrow> Some (Inr (None, l\<lparr>fl_bufferCh := Some ch'\<rparr>))
              | Inr WouldBlock \<Rightarrow>
                  Some (Inr (None,
                    l\<lparr>fl_stderr := fl_stderr l @ [BufferFull (Method entry) (Path entry)]\<rparr>)))
         | None \<Rightarrow> Some (Inr (FileLogger_writeEntry l (Some entry)))))"

text \<open>A failed write costs a line on the standard error stream and nothing else.\<close>

definition fl_report :: "(error \<Rightarrow> diag) \<Rightarrow> error option \<times> FileLogger \<Rightarrow> FileLogger" where
  "fl_report mk r =
     (case r of
        (None, l) \<Rightarrow> l
      | (Some e, l) \<Rightarrow> l\<lparr>fl_stderr := fl_stderr l @ [mk e]\<rparr>)"

text \<open>
  \<^verbatim>\<open>flushBuffer\<close>: \<^verbatim>\<open>for { select { case entry := <-l.bufferCh: ...; default: return } }\<close>.
  The loop returns when the receive would block (also on a nil channel). The result
  \<open>None\<close> stands for a loop that does not return.
\<close>

partial_function (option) FileLogger_flushBuffer :: "FileLogger \<Rightarrow> FileLogger option" where
  "FileLogger_flushBuffer l =
     (case fl_bufferCh l of
        None \<Rightarrow> Some l
      | Some ch \<Rightarrow>
          (case try_recv ch of
             None \<Rightarrow> Some l
           | Some (entry, ch') \<Rightarrow>
               FileLogger_flushBuffer
                 (fl_report FlushFailed
                    (FileLogger_writeEntry (l\<lparr>fl_bufferCh := Some ch'\<rparr>) entry))))"

text \<open>
  The writer goroutine started by \<^verbatim>\<open>startAsyncWriter\<close>, run until it returns, as
  \<^verbatim>\<open>l.wg.Wait()\<close> in \<^verbatim>\<open>Close\<close> requires: it writes what it receives, and on \<^verbatim>\<open>!ok\<close> calls
  \<^verbatim>\<open>flushBuffer\<close> and returns (\<^verbatim>\<open>defer l.wg.Done()\<close>). \<open>None\<close>: it never returns, which is
  also the case when it blocks on an open, empty channel that nobody sends to any more.
\<close>

partial_function (option) FileLogger_asyncWriter :: "FileLogger \<Rightarrow> FileLogger option" where
  "FileLogger_asyncWriter l =
     (case fl_bufferCh l of
        None \<Rightarrow> None
      | Some ch \<Rightarrow>
          (case try_recv ch of
             None \<Rightarrow> None
           | Some (Some entry, ch') \<Rightarrow>
               FileLogger_asyncWriter
                 (fl_report WriteFailed
                    (FileLogger_writeEntry (l\<lparr>fl_bufferCh := Some ch'\<rparr>) (Some entry)))
           | Some (None, ch') \<Rightarrow>
               map_option (\<lambda>l'. l'\<lparr>fl_wg := fl_wg l' - 1\<rparr>) (FileLogger_flushBuffer l)))"

text \<open>
  One turn of the writer goroutine when the scheduler picks it, for a logger in use: it
  takes and writes one entry, or parks at the receive when the channel is open and empty,
  or, on \<^verbatim>\<open>!ok\<close>, flushes and returns.
\<close>

definition FileLogger_asyncWriter_step :: "FileLogger \<Rightarrow> FileLogger option" where
  "FileLogger_asyncWriter_step l =
     (if fl_wg l = 0 then Some l
      else
        (case fl_bufferCh l of
           None \<Rightarrow> Some l
         | Some ch \<Rightarrow>
             (case try_recv ch of
                None \<Rightarrow> Some (l\<lparr>fl_bufferCh := Some (ch\<lparr>recv_waiting := True\<rparr>)\<rparr>)
              | Some (Some entry, ch') \<Rightarrow>
                  Some (fl_report WriteFailed
                          (FileLogger_writeEntry (l\<lparr>fl_bufferCh := Some ch'\<rparr>) (Some entry)))
              | Some (None, ch') \<Rightarrow>
                  map_option (\<lambda>l'. l'\<lparr>fl_wg := fl_wg l' - 1\<rparr>) (FileLogger_flushBuffer l))))"

text \<open>\<^verbatim>\<open>Flush\<close>.\<close>

definition FileLogger_Flush :: "FileLogger \<Rightarrow> FileLogger option" where
  "FileLogger_Flush l =
     (case fl_bufferCh l of None \<Rightarrow> Some l | Some ch \<Rightarrow> FileLogger_flushBuffer l)"

text \<open>
  The logger as \<^verbatim>\<open>Close\<close> has made it when it reaches \<^verbatim>\<open>l.wg.Wait()\<close>, and as the other
  goroutines find it for as long as \<^verbatim>\<open>Close\<close> waits there: the mutex held, the flag set, the
  channel closed and its receivers woken.
\<close>

definition FileLogger_Close_waiting :: "FileLogger \<Rightarrow> FileLogger" where
  "FileLogger_Close_waiting l =
     l\<lparr> fl_mu := True, fl_closed := True,
        fl_bufferCh :=
          map_option (\<lambda>ch. ch\<lparr>is_closed := True, recv_waiting := False\<rparr>) (fl_bufferCh l) \<rparr>"

text \<open>
  \<^verbatim>\<open>Close\<close>: lock the mutex (\<open>None\<close> while it is held); nothing more when already closed;
  otherwise set the flag, close the channel, wait for the wait group (at once when no
  writer was started, else until the writer has returned), flush the writer, close the
  file, and unlock on return. \<open>None\<close>: the call does not return, and the mutex stays held.
\<close>

definition FileLogger_Close :: "FileLogger \<Rightarrow> (panic + error option \<times> FileLogger) option" where
  "FileLogger_Close l =
     (if fl_mu l then None
      else if fl_closed l then Some (Inr (None, l))
      else
        (let finish = (\<lambda>l3. let (err, f) = file_Close (fl_file l3)
                             in (err, l3\<lparr>fl_file := f, fl_mu := False\<rparr>))
         in case fl_bufferCh l of
              None \<Rightarrow> Some (Inr (finish (FileLogger_Close_waiting l)))
            | Some ch \<Rightarrow>
                (case close_chan ch of
                   Inl p \<Rightarrow> Some (Inl p)
                 | Inr ch' \<Rightarrow>
                     (let l2 = FileLogger_Close_waiting l
                      in if fl_wg l2 = 0 then Some (Inr (finish l2))
                         else map_option (\<lambda>l3. Inr (finish l3)) (FileLogger_asyncWriter l2)))))"

text \<open>
  What holds of every file logger from its construction on. It has a channel. While it is
  not closed, nobody holds the mutex between two calls, the channel is open, and a receiver
  is parked only on an empty channel of a logger with a writer. Once it is closed and has a
  writer, the channel is closed, and the mutex is held by the \<^verbatim>\<open>Close\<close> that waits for the
  writer. Once it is closed and has no writer, the mutex is free again.
\<close>

definition FileLogger_inv :: "FileLogger \<Rightarrow> bool" where
  "FileLogger_inv l \<longleftrightarrow>
     (case fl_bufferCh l of
        None \<Rightarrow> False
      | Some ch \<Rightarrow>
          (if \<not> fl_closed l
           then \<not> fl_mu l \<and> \<not> is_closed ch
             \<and> (recv_waiting ch \<longrightarrow> buf ch = [] \<and> 0 < fl_wg l)
           else if 0 < fl_wg l
           then fl_mu l \<and> is_closed ch \<and> \<not> recv_waiting ch
           else \<not> fl_mu l \<and> \<not> recv_waiting ch))"

text \<open>
  The file logger behind the \<^verbatim>\<open>Logger\<close> interface, as the middleware calls it. (A \<^verbatim>\<open>Write\<close>
  that panics or does not return, which the invariant rules out on a logger that is not
  closed, would take the request with it; the interface has no place for either.)
\<close>

definition FileLogger_as_Logger :: "FileLogger \<Rightarrow> LogEntry \<Rightarrow> error option \<times> FileLogger" where
  "FileLogger_as_Logger l entry =
     (case FileLogger_Write l entry of Some (Inr r) \<Rightarrow> r | _ \<Rightarrow> (None, l))"

section \<open>The store behind the database logger\<close>

text \<open>
  The relational store is outside the repository; what the SQL statements of the source
  mean is fixed here. A table is the list of its rows in insertion order and the next
  value of its \<^verbatim>\<open>BIGSERIAL\<close> id. Times are seconds on one time line, a day is 86400 of
  them; \<open>db_now\<close> is the store's \<^verbatim>\<open>NOW()\<close>. \<open>db_timestamp_in\<close> is the store's reading of
  a timestamp given as text (\<open>None\<close>: not a timestamp). Column constraints (lengths,
  \<^verbatim>\<open>NOT NULL\<close>) and the range limits of the store's own types are not represented.
\<close>

record Row =
  row_id :: int
  row_method :: string
  row_path :: string
  row_client_ip :: string
  row_user_agent :: string
  row_status_code :: int
  row_duration_ms :: float64
  row_timestamp :: string
  row_custom_fields :: json
  row_created_at :: int

record Table =
  tb_rows :: "Row list"
  tb_next_id :: int

record DB =
  db_tables :: "string \<rightharpoonup> Table"
  db_now :: int
  db_timestamp_in :: "string \<Rightarrow> int option"
  db_closed :: bool

text \<open>
  The pattern matching of \<^verbatim>\<open>LIKE\<close>: \<^verbatim>\<open>%\<close> stands for any run of characters, \<^verbatim>\<open>_\<close> for any
  one character, a backslash makes the next pattern character stand for itself, every other
  character stands for itself, upper and lower case distinct. A pattern ending in a lone
  backslash matches nothing (the store rejects it; the patterns built below always end in
  \<^verbatim>\<open>%\<close>).
\<close>

fun like_match :: "string \<Rightarrow> string \<Rightarrow> bool" where
  "like_match [] s = (s = [])"
| "like_match (p # ps) s =
     (if p = CHR ''%'' then
        like_match ps s \<or> (case s of [] \<Rightarrow> False | c # cs \<Rightarrow> like_match (p # ps) cs)
      else if p = CHR ''_'' then
        (case s of [] \<Rightarrow> False | c # cs \<Rightarrow> like_match ps cs)
      else if p = CHR 0x5C then
        (case ps of
           [] \<Rightarrow> False
         | q # qs \<Rightarrow> (case s of [] \<Rightarrow> False | c # cs \<Rightarrow> c = q \<and> like_match qs cs))
      else
        (case s of [] \<Rightarrow> False | c # cs \<Rightarrow> c = p \<and> like_match ps cs))"

text \<open>
  The arguments bound to the placeholders of a query are Go values: a string, an integer
  or a \<^verbatim>\<open>time.Time\<close>.
\<close>

datatype arg = AStr string | AInt int | ATime int

text \<open>
  The conditions a \<^verbatim>\<open>WHERE\<close> clause is joined from with \<^verbatim>\<open>AND\<close>, each with the argument
  bound to its placeholder (the numbering \<^verbatim>\<open>$1, $2, ...\<close> of the source only pairs the two).
\<close>

datatype cond =
    MethodEq arg
  | PathLike arg
  | StatusCodeEq arg
  | CreatedAtGe arg
  | CreatedAtLe arg

definition time_of_arg :: "DB \<Rightarrow> arg \<Rightarrow> int option" where
  "time_of_arg db a =
     (case a of ATime t \<Rightarrow> Some t | AStr s \<Rightarrow> db_timestamp_in db s | AInt n \<Rightarrow> None)"

text \<open>
  The meaning of one condition as a predicate on rows. An argument of a Go type that does
  not fit the column is rejected (\<open>None\<close>): what the driver and the store would make of it
  is not represented.
\<close>

fun bind_cond :: "DB \<Rightarrow> cond \<Rightarrow> (Row \<Rightarrow> bool) option" where
  "bind_cond db (MethodEq (AStr m)) = Some (\<lambda>r. row_method r = m)"
| "bind_cond db (MethodEq _) = None"
| "bind_cond db (PathLike (AStr pat)) = Some (\<lambda>r. like_match pat (row_path r))"
| "bind_cond db (PathLike _) = None"
| "bind_cond db (StatusCodeEq (AInt n)) = Some (\<lambda>r. row_status_code r = n)"
| "bind_cond db (StatusCodeEq _) = None"
| "bind_cond db (CreatedAtGe a) =
     map_option (\<lambda>t r. t \<le> row_created_at r) (time_of_arg db a)"
| "bind_cond db (CreatedAtLe a) =
     map_option (\<lambda>t r. row_created_at r \<le> t) (time_of_arg db a)"

fun bind_conds :: "DB \<Rightarrow> cond list \<Rightarrow> (Row \<Rightarrow> bool) option" where
  "bind_conds db [] = Some (\<lambda>r. True)"
| "bind_conds db (c # cs) =
     (case bind_cond db c of
        None \<Rightarrow> None
      | Some p \<Rightarrow>
          (case bind_conds db cs of
             None \<Rightarrow> None
           | Some q \<Rightarrow> Some (\<lambda>r. p r \<and> q r)))"

text \<open>\<^verbatim>\<open>SELECT ... FROM t WHERE ...\<close>: the rows of the table that satisfy every condition.\<close>

definition db_select :: "DB \<Rightarrow> string \<Rightarrow> cond list \<Rightarrow> error + Row list" where
  "db_select db t conds =
     (if db_closed db then Inl ErrDatabaseClosed
      else
        (case db_tables db t of
           None \<Rightarrow> Inl ErrNoSuchTable
         | Some tb \<Rightarrow>
             (case bind_conds db conds of
                None \<Rightarrow> Inl ErrBadArgument
              | Some p \<Rightarrow> Inr (filter p (tb_rows tb)))))"

text \<open>
  \<^verbatim>\<open>ORDER BY created_at DESC LIMIT l OFFSET o\<close>. Rows with equal creation time keep their
  insertion order (the store leaves their order open); a negative limit or offset is an
  error of the store.
\<close>

definition order_limit_offset :: "int \<Rightarrow> int \<Rightarrow> Row list \<Rightarrow> error + Row list" where
  "order_limit_offset limit offset rs =
     (if limit < 0 \<or> offset < 0 then Inl ErrNegativeLimit
      else Inr (take (nat limit) (drop (nat offset) (sort_key (\<lambda>r. - row_created_at r) rs))))"

text \<open>
  \<^verbatim>\<open>INSERT INTO t (...) VALUES (...)\<close>: the row is appended under the next id. \<open>cf\<close> is
  what is bound to the \<^verbatim>\<open>JSONB\<close> column: a JSON text, or (\<open>None\<close>) the empty byte slice,
  which is no JSON text and which the store is taken to reject.
\<close>

definition db_insert :: "DB \<Rightarrow> string \<Rightarrow> Row \<Rightarrow> json option \<Rightarrow> error option \<times> DB" where
  "db_insert db t r cf =
     (if db_closed db then (Some ErrDatabaseClosed, db)
      else
        (case db_tables db t of
           None \<Rightarrow> (Some ErrNoSuchTable, db)
         | Some tb \<Rightarrow>
             (case cf of
                None \<Rightarrow> (Some ErrBadArgument, db)
              | Some j \<Rightarrow>
                  (None,
                   db\<lparr>db_tables := (db_tables db)(t \<mapsto>
                        \<lparr> tb_rows = tb_rows tb
                                     @ [r\<lparr>row_id := tb_next_id tb, row_custom_fields := j\<rparr>],
                          tb_next_id = tb_next_id tb + 1 \<rparr>)\<rparr>))))"


text \<open>\<^verbatim>\<open>CREATE TABLE IF NOT EXISTS t\<close>.\<close>

definition db_create_table :: "DB \<Rightarrow> string \<Rightarrow> error option \<times> DB" where
  "db_create_table db t =
     (if db_closed db then (Some ErrDatabaseClosed, db)
      else
        (case db_tables db t of
           Some tb \<Rightarrow> (None, db)
         | None \<Rightarrow>
             (None, db\<lparr>db_tables := (db_tables db)(t \<mapsto> \<lparr> tb_rows = [], tb_next_id = 1 \<rparr>)\<rparr>)))"

text \<open>\<^verbatim>\<open>(*sql.DB).Close\<close>.\<close>

definition db_Close :: "DB \<Rightarrow> error option \<times> DB" where
  "db_Close db = (None, db\<lparr>db_closed := True\<rparr>)"


section \<open>The database logger (DBLogger)\<close>

text \<open>
  What the logger reads of its process: the clock behind \<^verbatim>\<open>time.Now()\<close>, in seconds, and
  the offset of the zone \<^verbatim>\<open>Local\<close>, in seconds east of UTC.
\<close>

record Process =
  proc_clock :: int
  proc_zone :: int

text \<open>
  \<^verbatim>\<open>type DBLogger struct\<close>, with the same conventions as for the file logger (nil channel,
  wait-group counter, mutex, diagnostics, no \<^verbatim>\<open>quit\<close>).
\<close>

record DBLogger =
  dl_db :: DB
  dl_driver :: string
  dl_tableName :: string
  dl_bufferCh :: "LogEntry chan option"
  dl_wg :: nat
  dl_closed :: bool
  dl_mu :: bool
  dl_stderr :: "diag list"
  dl_proc :: Process

definition DBLogger_startAsyncWriter :: "DBLogger \<Rightarrow> DBLogger" where
  "DBLogger_startAsyncWriter l = l\<lparr>dl_wg := dl_wg l + 1\<rparr>"

text \<open>
  \<^verbatim>\<open>NewDBLogger\<close>. \<open>opened\<close> is the outcome of \<^verbatim>\<open>sql.Open\<close> and \<^verbatim>\<open>db.Ping\<close> for the driver and
  the data source name (\<open>None\<close>: one of them failed). Here too the channel is made whatever
  \<open>async\<close> says.
\<close>

definition NewDBLogger ::
  "Process \<Rightarrow> DB option \<Rightarrow> string \<Rightarrow> bool \<Rightarrow> int \<Rightarrow> panic + error + DBLogger" where
  "NewDBLogger proc opened driver async bufferSize =
     (case opened of
        None \<Rightarrow> Inr (Inl ErrOpenDatabase)
      | Some db \<Rightarrow>
          if bufferSize < 0 then Inl MakeChanSizeOutOfRange
          else
            (let logger = \<lparr> dl_db = db, dl_driver = driver, dl_tableName = ''request_logs'',
                             dl_bufferCh = Some (make_chan (nat bufferSize)), dl_wg = 0,
                             dl_closed = False, dl_mu = False, dl_stderr = [],
                             dl_proc = proc \<rparr>
             in Inr (Inr (if async then DBLogger_startAsyncWriter logger else logger))))"

text \<open>\<^verbatim>\<open>CreateTable\<close> (the indexes have no counterpart).\<close>

definition CreateTable :: "DBLogger \<Rightarrow> error option \<times> DBLogger" where
  "CreateTable l =
     (let (err, db) = db_create_table (dl_db l) (dl_tableName l) in (err, l\<lparr>dl_db := db\<rparr>))"

text \<open>
  \<^verbatim>\<open>insertEntry\<close>: reading \<^verbatim>\<open>entry.CustomFields\<close> through a nil pointer panics; otherwise one
  row is inserted, stamped with the process's \<^verbatim>\<open>time.Now()\<close>. The error of marshalling the
  custom fields is discarded: then the byte slice bound to the column is empty.
\<close>

definition DBLogger_insertEntry ::
  "DBLogger \<Rightarrow> LogEntry option \<Rightarrow> panic + error option \<times> DBLogger" where
  "DBLogger_insertEntry l entry =
     (case entry of
        None \<Rightarrow> Inl NilPointerDereference
      | Some e \<Rightarrow>
          (let customFields =
                 (case marshal_map (CustomFields e) of Inl err \<Rightarrow> None | Inr data \<Rightarrow> Some data);
               (err, db) = db_insert (dl_db l) (dl_tableName l)
                  \<lparr> row_id = 0, row_method = Method e, row_path = Path e,
                    row_client_ip = ClientIP e, row_user_agent = UserAgent e,
                    row_status_code = StatusCode e, row_duration_ms = Duration e,
                    row_timestamp = Timestamp e, row_custom_fields = JNull,
                    row_created_at = proc_clock (dl_proc l) \<rparr>
                  customFields
           in Inr (err, l\<lparr>dl_db := db\<rparr>)))"

text \<open>\<^verbatim>\<open>Write\<close>, line by line the same as the file logger's, the mutex included.\<close>

definition DBLogger_Write ::
  "DBLogger \<Rightarrow> LogEntry \<Rightarrow> (panic + error option \<times> DBLogger) option" where
  "DBLogger_Write l entry =
     (if dl_mu l then None
      else if dl_closed l then Some (Inr (Some ErrLoggerClosed, l))
      else
        (case dl_bufferCh l of
           Some ch \<Rightarrow>
             (case try_send ch entry of
                Inl p \<Rightarrow> Some (Inl p)
              | Inr (Sent ch') \<Rightarrow> Some (Inr (None, l\<lparr>dl_bufferCh := Some ch'\<rparr>))
              | Inr WouldBlock \<Rightarrow>
                  Some (Inr (None,
                    l\<lparr>dl_stderr := dl_stderr l @ [BufferFull (Method entry) (Path entry)]\<rparr>)))
         | None \<Rightarrow> Some (DBLogger_insertEntry l (Some entry))))"

definition dl_report :: "(error \<Rightarrow> diag) \<Rightarrow> error option \<times> DBLogger \<Rightarrow> DBLogger" where
  "dl_report mk r =
     (case r of
        (None, l) \<Rightarrow> l
      | (Some e, l) \<Rightarrow> l\<lparr>dl_stderr := dl_stderr l @ [mk e]\<rparr>)"

text \<open>\<^verbatim>\<open>flushBuffer\<close>; a panic ends the loop (and the process).\<close>

partial_function (option) DBLogger_flushBuffer :: "DBLogger \<Rightarrow> (panic + DBLogger) option" where
  "DBLogger_flushBuffer l =
     (case dl_bufferCh l of
        None \<Rightarrow> Some (Inr l)
      | Some ch \<Rightarrow>
          (case try_recv ch of
             None \<Rightarrow> Some (Inr l)
           | Some (entry, ch') \<Rightarrow>
               (case DBLogger_insertEntry (l\<lparr>dl_bufferCh := Some ch'\<rparr>) entry of
                  Inl p \<Rightarrow> Some (Inl p)
                | Inr r \<Rightarrow> DBLogger_flushBuffer (dl_report FlushFailed r))))"

text \<open>The writer goroutine, run until it returns or panics.\<close>

partial_function (option) DBLogger_asyncWriter :: "DBLogger \<Rightarrow> (panic + DBLogger) option" where
  "DBLogger_asyncWriter l =
     (case dl_bufferCh l of
        None \<Rightarrow> None
      | Some ch \<Rightarrow>
          (case try_recv ch of
             None \<Rightarrow> None
           | Some (Some entry, ch') \<Rightarrow>
               (case DBLogger_insertEntry (l\<lparr>dl_bufferCh := Some ch'\<rparr>) (Some entry) of
                  Inl p \<Rightarrow> Some (Inl p)
                | Inr r \<Rightarrow> DBLogger_asyncWriter (dl_report InsertFailed r))
           | Some (None, ch') \<Rightarrow>
               (case DBLogger_flushBuffer l of
                  None \<Rightarrow> None
                | Some (Inl p) \<Rightarrow> Some (Inl p)
                | Some (Inr l') \<Rightarrow> Some (Inr (l'\<lparr>dl_wg := dl_wg l' - 1\<rparr>)))))"

text \<open>One turn of the writer goroutine.\<close>

definition DBLogger_asyncWriter_step :: "DBLogger \<Rightarrow> (panic + DBLogger) option" where
  "DBLogger_asyncWriter_step l =
     (if dl_wg l = 0 then Some (Inr l)
      else
        (case dl_bufferCh l of
           None \<Rightarrow> Some (Inr l)
         | Some ch \<Rightarrow>
             (case try_recv ch of
                None \<Rightarrow> Some (Inr (l\<lparr>dl_bufferCh := Some (ch\<lparr>recv_waiting := True\<rparr>)\<rparr>))
              | Some (Some entry, ch') \<Rightarrow>
                  (case DBLogger_insertEntry (l\<lparr>dl_bufferCh := Some ch'\<rparr>) (Some entry) of
                     Inl p \<Rightarrow> Some (Inl p)
                   | Inr r \<Rightarrow> Some (Inr (dl_report InsertFailed r)))
              | Some (None, ch') \<Rightarrow>
                  (case DBLogger_flushBuffer l of
                     None \<Rightarrow> None
                   | Some (Inl p) \<Rightarrow> Some (Inl p)
                   | Some (Inr l') \<Rightarrow> Some (Inr (l'\<lparr>dl_wg := dl_wg l' - 1\<rparr>))))))"

text \<open>\<^verbatim>\<open>Flush\<close>.\<close>

definition DBLogger_Flush :: "DBLogger \<Rightarrow> (panic + DBLogger) option" where
  "DBLogger_Flush l =
     (case dl_bufferCh l of None \<Rightarrow> Some (Inr l) | Some ch \<Rightarrow> DBLogger_flushBuffer l)"

text \<open>
  The logger as \<^verbatim>\<open>Close\<close> has made it when it reaches \<^verbatim>\<open>l.wg.Wait()\<close>.
\<close>

definition DBLogger_Close_waiting :: "DBLogger \<Rightarrow> DBLogger" where
  "DBLogger_Close_waiting l =
     l\<lparr> dl_mu := True, dl_closed := True,
        dl_bufferCh :=
          map_option (\<lambda>ch. ch\<lparr>is_closed := True, recv_waiting := False\<rparr>) (dl_bufferCh l) \<rparr>"

text \<open>
  \<^verbatim>\<open>Close\<close>, as the file logger's, with the database closed at the end. A panic of the
  writer while \<^verbatim>\<open>Close\<close> waits ends the process.
\<close>

definition DBLogger_Close :: "DBLogger \<Rightarrow> (panic + error option \<times> DBLogger) option" where
  "DBLogger_Close l =
     (if dl_mu l then None
      else if dl_closed l then Some (Inr (None, l))
      else
        (let finish = (\<lambda>l3. let (err, db) = db_Close (dl_db l3)
                             in (err, l3\<lparr>dl_db := db, dl_mu := False\<rparr>))
         in case dl_bufferCh l of
              None \<Rightarrow> Some (Inr (finish (DBLogger_Close_waiting l)))
            | Some ch \<Rightarrow>
                (case close_chan ch of
                   Inl p \<Rightarrow> Some (Inl p)
                 | Inr ch' \<Rightarrow>
                     (let l2 = DBLogger_Close_waiting l
                      in if dl_wg l2 = 0 then Some (Inr (finish l2))
                         else
                           (case DBLogger_asyncWriter l2 of
                              None \<Rightarrow> None
                            | Some (Inl p) \<Rightarrow> Some (Inl p)
                            | Some (Inr l3) \<Rightarrow> Some (Inr (finish l3)))))))"

definition DBLogger_inv :: "DBLogger \<Rightarrow> bool" where
  "DBLogger_inv l \<longleftrightarrow>
     (case dl_bufferCh l of
        None \<Rightarrow> False
      | Some ch \<Rightarrow>
          (if \<not> dl_closed l
           then \<not> dl_mu l \<and> \<not> is_closed ch
             \<and> (recv_waiting ch \<longrightarrow> buf ch = [] \<and> 0 < dl_wg l)
           else if 0 < dl_wg l
           then dl_mu l \<and> is_closed ch \<and> \<not> recv_waiting ch
           else \<not> dl_mu l \<and> \<not> recv_waiting ch))"

subsection \<open>The read side: QueryLogs, CountLogs, DeleteOldLogs\<close>

text \<open>
  \<^verbatim>\<open>convertToLocalTime\<close>: the wall-clock reading of a time, taken as UTC, is read again in
  the local zone; the zero time (1 January of year 1) is left alone.
\<close>

definition zero_time :: int where
  "zero_time = - 62135596800"

definition convertToLocalTime :: "Process \<Rightarrow> int \<Rightarrow> int" where
  "convertToLocalTime proc t = (if t = zero_time then t else t - proc_zone proc)"

text \<open>
  The conditions \<^verbatim>\<open>QueryLogs\<close> builds from its filter map, in the order of the source. A
  filter is taken when its key is present and its value differs from the empty string
  (from the integer 0 for the status code); the path filter moreover has to be a string,
  and is wrapped in \<^verbatim>\<open>%\<close> as it is.
\<close>

definition QueryLogs_conds :: "(string \<rightharpoonup> arg) \<Rightarrow> cond list" where
  "QueryLogs_conds conditions =
     (case conditions ''method'' of
        Some method \<Rightarrow> if method \<noteq> AStr [] then [MethodEq method] else []
      | None \<Rightarrow> [])
     @ (case conditions ''path'' of
          Some path \<Rightarrow>
            if path \<noteq> AStr [] then
              (case path of
                 AStr pathStr \<Rightarrow>
                   if pathStr \<noteq> [] then [PathLike (AStr (''%'' @ pathStr @ ''%''))] else []
               | _ \<Rightarrow> [])
            else []
        | None \<Rightarrow> [])
     @ (case conditions ''status_code'' of
          Some statusCode \<Rightarrow> if statusCode \<noteq> AInt 0 then [StatusCodeEq statusCode] else []
        | None \<Rightarrow> [])
     @ (case conditions ''start_time'' of
          Some startTime \<Rightarrow> if startTime \<noteq> AStr [] then [CreatedAtGe startTime] else []
        | None \<Rightarrow> [])
     @ (case conditions ''end_time'' of
          Some endTime \<Rightarrow> if endTime \<noteq> AStr [] then [CreatedAtLe endTime] else []
        | None \<Rightarrow> [])"

definition QueryLogs :: "DBLogger \<Rightarrow> int \<Rightarrow> int \<Rightarrow> (string \<rightharpoonup> arg) \<Rightarrow> error + Row list" where
  "QueryLogs l offset limit conditions =
     (case db_select (dl_db l) (dl_tableName l) (QueryLogs_conds conditions) of
        Inl err \<Rightarrow> Inl err
      | Inr rs \<Rightarrow>
          (case order_limit_offset limit offset rs of
             Inl err \<Rightarrow> Inl err
           | Inr entries \<Rightarrow>
               Inr (map (\<lambda>r. r\<lparr>row_created_at := convertToLocalTime (dl_proc l) (row_created_at r)\<rparr>)
                      entries)))"

text \<open>The conditions \<^verbatim>\<open>CountLogs\<close> builds from its filter map.\<close>

definition CountLogs_conds :: "(string \<rightharpoonup> arg) \<Rightarrow> cond list" where
  "CountLogs_conds conditions =
     (case conditions ''method'' of
        Some method \<Rightarrow> if method \<noteq> AStr [] then [MethodEq method] else []
      | None \<Rightarrow> [])
     @ (case conditions ''start_time'' of
          Some startTime \<Rightarrow> if startTime \<noteq> AStr [] then [CreatedAtGe startTime] else []
        | None \<Rightarrow> [])
     @ (case conditions ''end_time'' of
          Some endTime \<Rightarrow> if endTime \<noteq> AStr [] then [CreatedAtLe endTime] else []
        | None \<Rightarrow> [])"

definition CountLogs :: "DBLogger \<Rightarrow> (string \<rightharpoonup> arg) \<Rightarrow> error + int" where
  "CountLogs l conditions =
     (case db_select (dl_db l) (dl_tableName l) (CountLogs_conds conditions) of
        Inl err \<Rightarrow> Inl err
      | Inr rs \<Rightarrow> Inr (int (length rs)))"



text \<open>\<^verbatim>\<open>EscapeLike\<close>: defined in the source, called nowhere.\<close>

definition EscapeLike :: "string \<Rightarrow> string" where
  "EscapeLike s =
     concat (map (\<lambda>c. if c = CHR ''_'' then [CHR 0x5C, CHR ''_''] else [c])
       (concat (map (\<lambda>c. if c = CHR ''%'' then [CHR 0x5C, CHR ''%''] else [c])
          (concat (map (\<lambda>c. if c = CHR 0x5C then [CHR 0x5C, CHR 0x5C] else [c]) s)))))"


subsection \<open>A concrete request\<close>

text \<open>
  A \<^verbatim>\<open>GET\<close> without body arriving in a fresh context, the clock of a request that took
  15.5 ms, and the simplest implementation of the \<^verbatim>\<open>Logger\<close> interface, which keeps the
  entries it is given in arrival order. They are the inputs the concrete statements below
  are evaluated at.
\<close>

definition example_context :: "string \<Rightarrow> Context" where
  "example_context path =
     \<lparr> Request = \<lparr> req_Method = ''GET'', req_Path = path, req_UserAgent = ''Mozilla/5.0'',
                   req_Body = None \<rparr>,
       ctx_ClientIP = ''192.168.1.100'',
       Status = 200,
       Keys = Map.empty \<rparr>"

definition example_clock :: Clock where
  "example_clock = \<lparr> elapsed = 15500000, format_now = (\<lambda>layout. ''2026-02-14T10:30:00.123Z'') \<rparr>"

definition list_Write :: "LogEntry list \<Rightarrow> LogEntry \<Rightarrow> unit option \<times> LogEntry list" where
  "list_Write l entry = (None, l @ [entry])"


subsection \<open>Concrete sinks\<close>

text \<open>
  An entry, an empty log file, a store whose table \<^verbatim>\<open>request_logs\<close> holds given rows at a
  given \<^verbatim>\<open>NOW()\<close>, and the two loggers as their constructors return them for
  \<^verbatim>\<open>async = false\<close> and a buffer size of 2.
\<close>

definition example_entry :: LogEntry where
  "example_entry =
     \<lparr> Method = ''GET'', Path = ''/api/users'', ClientIP = ''192.168.1.100'',
       UserAgent = ''Mozilla/5.0'', StatusCode = 200, Duration = Finite 15.5,
       Timestamp = ''2026-02-14T10:30:00.123Z'', CustomFields = None \<rparr>"

definition empty_file :: File where
  "empty_file = \<lparr> content = [], file_closed = False \<rparr>"

definition example_process :: Process where
  "example_process = \<lparr> proc_clock = 8640000, proc_zone = 0 \<rparr>"

definition example_row :: "int \<Rightarrow> string \<Rightarrow> string \<Rightarrow> int \<Rightarrow> int \<Rightarrow> Row" where
  "example_row i method path status created =
     \<lparr> row_id = i, row_method = method, row_path = path, row_client_ip = ''192.168.1.100'',
       row_user_agent = ''Mozilla/5.0'', row_status_code = status,
       row_duration_ms = Finite 15.5,
       row_timestamp = ''2026-02-14T10:30:00.123Z'', row_custom_fields = JNull,
       row_created_at = created \<rparr>"

definition example_db :: "Row list \<Rightarrow> int \<Rightarrow> DB" where
  "example_db rs now =
     \<lparr> db_tables = [''request_logs'' \<mapsto> \<lparr> tb_rows = rs, tb_next_id = int (length rs) + 1 \<rparr>],
       db_now = now, db_timestamp_in = (\<lambda>s. None), db_closed = False \<rparr>"

definition sync_file_logger :: FileLogger where
  "sync_file_logger =
     \<lparr> fl_file = empty_file, fl_bufferCh = Some (make_chan 2), fl_wg = 0, fl_closed = False,
       fl_mu = False, fl_stderr = [] \<rparr>"

definition example_store :: "Row list \<Rightarrow> int \<Rightarrow> DBLogger" where
  "example_store rs now =
     \<lparr> dl_db = example_db rs now, dl_driver = ''postgres'', dl_tableName = ''request_logs'',
       dl_bufferCh = Some (make_chan 2), dl_wg = 0, dl_closed = False, dl_mu = False,
       dl_stderr = [], dl_proc = example_process \<rparr>"

text \<open>A filter text without any of the characters that \<^verbatim>\<open>LIKE\<close> reads specially.\<close>

definition plain :: "string \<Rightarrow> bool" where
  "plain p \<longleftrightarrow> CHR ''%'' \<notin> set p \<and> CHR ''_'' \<notin> set p \<and> CHR 0x5C \<notin> set p"

section \<open>Properties of the record encoding\<close>

text \<open>
  A string of ASCII characters is written as it is; a byte that starts no well-formed
  UTF-8 sequence is written as U+FFFD.
\<close>

lemma coerce_utf8_ascii:
  "list_all (\<lambda>c. (of_char c :: nat) < 0x80) s \<Longrightarrow> coerce_utf8 s = s"
  unfolding coerce_utf8_def by (induction s) (auto simp: DecodeRune_width_def)

lemma invalid_utf8_path:
  "json_Marshal (Some (example_entry\<lparr>Path := [CHR ''/'', CHR ''a'', CHR 0xFF]\<rparr>))
     = Inr (JObj [(''method'', JStr ''GET''),
                  (''path'', JStr [CHR ''/'', CHR ''a'', CHR 0xEF, CHR 0xBF, CHR 0xBD]),
                  (''client_ip'', JStr ''192.168.1.100''), (''user_agent'', JStr ''Mozilla/5.0''),
                  (''status_code'', JInt 200), (''duration_ms'', JNum 15.5),
                  (''timestamp'', JStr ''2026-02-14T10:30:00.123Z'')])"
  by (simp add: example_entry_def json_Marshal_def MarshalJSON_def omitempty_map_def
      coerce_utf8_def DecodeRune_width_def)

text \<open>
  \<^verbatim>\<open>json.Marshal\<close> succeeds on exactly the supported values, and keeps the keys of a map in
  the order it is given them.
\<close>

lemma supported_encode:
  "supported v \<longrightarrow> (\<exists>j. encode v = Inr j)"
  "list_all supported vs \<longrightarrow> (\<exists>js. encode_list vs = Inr js)"
  "list_all (\<lambda>kv. supported (snd kv)) kvs \<longrightarrow>
     (\<exists>ms. encode_members kvs = Inr ms \<and> map fst ms = map fst kvs)"
  by (induction v and vs and kvs rule: encode_encode_list_encode_members.induct)
     (auto split: float64.splits)

lemma encode_supported:
  "(\<exists>j. encode v = Inr j) \<longrightarrow> supported v"
  "(\<exists>js. encode_list vs = Inr js) \<longrightarrow> list_all supported vs"
  "(\<exists>ms. encode_members kvs = Inr ms) \<longrightarrow> list_all (\<lambda>kv. supported (snd kv)) kvs"
  by (induction v and vs and kvs rule: encode_encode_list_encode_members.induct)
     (auto split: float64.splits sum.splits)

text \<open>
  Serializing an entry fails exactly when its duration is no number or one of its custom
  fields holds a value without an encoding.
\<close>

lemma json_Marshal_fails_iff:
  "(\<exists>e. json_Marshal (Some l) = Inl e) \<longleftrightarrow>
     \<not> ((\<exists>d. Duration l = Finite d)
        \<and> (\<forall>m. CustomFields l = Some m \<longrightarrow> list_all (\<lambda>kv. supported (snd kv)) m))"
proof (cases "Duration l")
  case (Finite d)
  show ?thesis
  proof (cases "CustomFields l")
    case None
    with Finite show ?thesis
      by (simp add: json_Marshal_def MarshalJSON_def omitempty_map_def)
  next
    case (Some m)
    show ?thesis
    proof (cases "list_all (\<lambda>kv. supported (snd kv)) m")
      case True
      with supported_encode(3)[of m] obtain cs where "encode_members m = Inr cs" by auto
      with Finite Some True show ?thesis
        by (simp add: json_Marshal_def MarshalJSON_def omitempty_map_def)
    next
      case False
      then have "m \<noteq> []" by auto
      from False encode_supported(3)[of m] obtain e where "encode_members m = Inl e"
        by (cases "encode_members m") auto
      with Finite Some False \<open>m \<noteq> []\<close> show ?thesis
        by (simp add: json_Marshal_def MarshalJSON_def omitempty_map_def)
    qed
  qed
qed (simp_all add: json_Marshal_def MarshalJSON_def)




section \<open>Properties of the middleware\<close>

text \<open>
  C10. Building the middleware normalises the configuration: a nil configuration becomes
  the default configuration, an empty time format becomes the default time format, a
  buffer size of zero or less becomes 1000, and nothing else changes; so the configuration
  the handler is bound to has a non-empty time format and a positive buffer size.
\<close>

theorem C10_config_normalised:
  "RequestLoggerWithConfig_cfg None = DefaultConfig
   \<and> (TimeFormat c = [] \<longrightarrow>
        TimeFormat (RequestLoggerWithConfig_cfg (Some c)) = ''2006-01-02T15:04:05.000Z07:00'')
   \<and> (TimeFormat c \<noteq> [] \<longrightarrow>
        TimeFormat (RequestLoggerWithConfig_cfg (Some c)) = TimeFormat c)
   \<and> (BufferSize c \<le> 0 \<longrightarrow> BufferSize (RequestLoggerWithConfig_cfg (Some c)) = 1000)
   \<and> (0 < BufferSize c \<longrightarrow> BufferSize (RequestLoggerWithConfig_cfg (Some c)) = BufferSize c)
   \<and> Enabled (RequestLoggerWithConfig_cfg (Some c)) = Enabled c
   \<and> SkipPaths (RequestLoggerWithConfig_cfg (Some c)) = SkipPaths c
   \<and> cfg_CustomFields (RequestLoggerWithConfig_cfg (Some c)) = cfg_CustomFields c
   \<and> Async (RequestLoggerWithConfig_cfg (Some c)) = Async c
   \<and> TimeFormat (RequestLoggerWithConfig_cfg cfg) \<noteq> []
   \<and> 0 < BufferSize (RequestLoggerWithConfig_cfg cfg)"
  by (cases cfg)
     (simp_all add: RequestLoggerWithConfig_cfg_def DefaultConfig_def DefaultTimeFormat_def
        Let_def)

theorem C10_config_normalised_witness:
  "RequestLoggerWithConfig_cfg
      (Some \<lparr> Enabled = False, SkipPaths = [], cfg_CustomFields = None, TimeFormat = [],
              Async = False, BufferSize = - 5 \<rparr>)
     = \<lparr> Enabled = False, SkipPaths = [], cfg_CustomFields = None,
         TimeFormat = ''2006-01-02T15:04:05.000Z07:00'', Async = False, BufferSize = 1000 \<rparr>
   \<and> RequestLoggerWithConfig_cfg
      (Some \<lparr> Enabled = True, SkipPaths = [''/x''], cfg_CustomFields = None,
              TimeFormat = ''15:04'', Async = True, BufferSize = 7 \<rparr>)
     = \<lparr> Enabled = True, SkipPaths = [''/x''], cfg_CustomFields = None,
         TimeFormat = ''15:04'', Async = True, BufferSize = 7 \<rparr>"
  using
    C10_config_normalised [of "\<lparr> Enabled = False, SkipPaths = [], cfg_CustomFields = None,
        TimeFormat = [], Async = False, BufferSize = - 5 \<rparr>" None]
    C10_config_normalised [of "\<lparr> Enabled = True, SkipPaths = [''/x''],
        cfg_CustomFields = None, TimeFormat = ''15:04'', Async = True, BufferSize = 7 \<rparr>" None]
  by (simp add: Config.equality)

lemma skip_match_iff: "skip_match p sps \<longleftrightarrow> p \<in> set sps"
  by (induction sps) auto

text \<open>
  C7. A request gives rise to a log entry exactly when the snapshot is enabled and the
  request path equals no skip path. Otherwise the handler only runs the rest of the chain:
  the result does not depend on the logger's \<open>write\<close>, nothing is written and no goroutine
  is started, whatever the request. When it is instrumented, one entry describing the
  request as the chain left it is put into the context and handed to the logger, inline
  when the snapshot is synchronous and through a goroutine when it is asynchronous.
\<close>

theorem C7_entry_iff_enabled_and_not_skipped:
  "(\<not> Enabled cfg \<or> req_Path (Request c) \<in> set (SkipPaths cfg) \<longrightarrow>
      RequestLoggerWithConfig write cfg clock next logger c
        = \<lparr> out_ctx = next c, out_logger = logger, out_spawned = None \<rparr>)
   \<and> (Enabled cfg \<and> req_Path (Request c) \<notin> set (SkipPaths cfg) \<longrightarrow>
      (\<exists>entry.
         Method entry = req_Method (Request (next c))
         \<and> Path entry = req_Path (Request (next c))
         \<and> StatusCode entry = Status (next c)
         \<and> GetLogEntry (out_ctx (RequestLoggerWithConfig write cfg clock next logger c))
             = Some entry
         \<and> (if Async cfg
            then out_spawned (RequestLoggerWithConfig write cfg clock next logger c) = Some entry
               \<and> out_logger (RequestLoggerWithConfig write cfg clock next logger c) = logger
            else out_spawned (RequestLoggerWithConfig write cfg clock next logger c) = None
               \<and> out_logger (RequestLoggerWithConfig write cfg clock next logger c)
                   = snd (write logger entry))))"
proof (intro conjI impI)
  assume "\<not> Enabled cfg \<or> req_Path (Request c) \<in> set (SkipPaths cfg)"
  then show "RequestLoggerWithConfig write cfg clock next logger c
        = \<lparr> out_ctx = next c, out_logger = logger, out_spawned = None \<rparr>"
    by (cases "SkipPaths cfg") (auto simp: RequestLoggerWithConfig_def skip_match_iff Let_def)
next
  assume a: "Enabled cfg \<and> req_Path (Request c) \<notin> set (SkipPaths cfg)"
  have same: "(if req_Body (Request c) \<noteq> None
         then c\<lparr>Request := (Request c)\<lparr>req_Body :=
                 Some (case req_Body (Request c) of None \<Rightarrow> [] | Some b \<Rightarrow> b)\<rparr>\<rparr>
         else c) = c"
    by (cases "req_Body (Request c)") simp_all
  show "\<exists>entry.
         Method entry = req_Method (Request (next c))
         \<and> Path entry = req_Path (Request (next c))
         \<and> StatusCode entry = Status (next c)
         \<and> GetLogEntry (out_ctx (RequestLoggerWithConfig write cfg clock next logger c))
             = Some entry
         \<and> (if Async cfg
            then out_spawned (RequestLoggerWithConfig write cfg clock next logger c) = Some entry
               \<and> out_logger (RequestLoggerWithConfig write cfg clock next logger c) = logger
            else out_spawned (RequestLoggerWithConfig write cfg clock next logger c) = None
               \<and> out_logger (RequestLoggerWithConfig write cfg clock next logger c)
                   = snd (write logger entry))"
    unfolding RequestLoggerWithConfig_def Let_def same using a
    by (simp add: skip_match_iff GetLogEntry_def ctx_Set_def NewLogEntry_def
        split: option.splits)
qed


text \<open>
  A disabled snapshot, a path equal to the skip path \<^verbatim>\<open>/health\<close>, and the path \<^verbatim>\<open>/heal\<close>,
  a proper substring of it, synchronous and asynchronous.
\<close>

theorem C7_entry_iff_enabled_and_not_skipped_witness:
  "RequestLoggerWithConfig list_Write (DefaultConfig\<lparr>Enabled := False\<rparr>) example_clock id []
       (example_context ''/api/users'')
     = \<lparr> out_ctx = example_context ''/api/users'', out_logger = [], out_spawned = None \<rparr>
   \<and> RequestLoggerWithConfig list_Write (DefaultConfig\<lparr>Async := False\<rparr>) example_clock id []
       (example_context ''/health'')
     = \<lparr> out_ctx = example_context ''/health'', out_logger = [], out_spawned = None \<rparr>
   \<and> map Path (out_logger
        (RequestLoggerWithConfig list_Write (DefaultConfig\<lparr>Async := False\<rparr>) example_clock id []
           (example_context ''/heal''))) = [''/heal'']
   \<and> map_option Path (out_spawned
        (RequestLoggerWithConfig list_Write DefaultConfig example_clock id []
           (example_context ''/heal''))) = Some ''/heal''"
  using
    C7_entry_iff_enabled_and_not_skipped [of "DefaultConfig\<lparr>Enabled := False\<rparr>"
      "example_context ''/api/users''" list_Write example_clock id "[]"]
    C7_entry_iff_enabled_and_not_skipped [of "DefaultConfig\<lparr>Async := False\<rparr>"
      "example_context ''/health''" list_Write example_clock id "[]"]
    C7_entry_iff_enabled_and_not_skipped [of "DefaultConfig\<lparr>Async := False\<rparr>"
      "example_context ''/heal''" list_Write example_clock id "[]"]
    C7_entry_iff_enabled_and_not_skipped [of "DefaultConfig"
      "example_context ''/heal''" list_Write example_clock id "[]"]
  by (auto simp: DefaultConfig_def example_context_def list_Write_def)


text \<open>
  \<^verbatim>\<open>SetLogField\<close> touches nothing but the key/value store of the context, and the entry the
  handler builds is made from the request, the status and the client address only. So a
  call of \<^verbatim>\<open>SetLogField\<close> at the end of the downstream chain, whatever the chain and the
  configuration, changes nothing in what is handed to the logger.
\<close>

lemma SetLogField_Request [simp]: "Request (SetLogField c k v) = Request c"
  by (simp add: SetLogField_def ctx_Set_def Let_def split: option.splits)
lemma SetLogField_Status [simp]: "Status (SetLogField c k v) = Status c"
  by (simp add: SetLogField_def ctx_Set_def Let_def split: option.splits)
lemma SetLogField_ClientIP [simp]: "ctx_ClientIP (SetLogField c k v) = ctx_ClientIP c"
  by (simp add: SetLogField_def ctx_Set_def Let_def split: option.splits)

lemma SetLogField_downstream_no_effect:
  "out_logger (RequestLoggerWithConfig write cfg clock (\<lambda>c. SetLogField (next c) k v) logger c)
     = out_logger (RequestLoggerWithConfig write cfg clock next logger c)
   \<and> out_spawned (RequestLoggerWithConfig write cfg clock (\<lambda>c. SetLogField (next c) k v) logger c)
     = out_spawned (RequestLoggerWithConfig write cfg clock next logger c)"
  unfolding RequestLoggerWithConfig_def Let_def
  by (simp split: option.splits)

text \<open>
  C4. The claim is that code further down the chain can read the in-flight entry and add
  custom fields that reach the persisted record. In the source the entry is built and
  stored in the context only after \<^verbatim>\<open>c.Next()\<close> has returned, and it is handed to the
  logger in the same breath. A downstream handler that calls
  \<^verbatim>\<open>SetLogField(c, "user_id", "12345")\<close> therefore finds no entry (\<^verbatim>\<open>GetLogEntry\<close> is
  nil, \<^verbatim>\<open>SetLogField\<close> leaves the context as it is), and the entry written for that
  request has no custom field: its record has no \<^verbatim>\<open>custom_fields\<close> member. The last part
  follows the entry into the file of a file logger with a writer, through \<^verbatim>\<open>Write\<close> and
  one turn of the writer.
\<close>

theorem C4_field_set_downstream_is_lost:
  "GetLogEntry (example_context ''/api/users'') = None
   \<and> SetLogField (example_context ''/api/users'') ''user_id'' (VString ''12345'')
       = example_context ''/api/users''
   \<and> out_logger
        (RequestLoggerWithConfig list_Write (DefaultConfig\<lparr>Async := False\<rparr>) example_clock
           (\<lambda>c. SetLogField c ''user_id'' (VString ''12345'')) [] (example_context ''/api/users''))
       = [\<lparr> Method = ''GET'', Path = ''/api/users'', ClientIP = ''192.168.1.100'',
            UserAgent = ''Mozilla/5.0'', StatusCode = 200, Duration = Finite 15.5,
            Timestamp = ''2026-02-14T10:30:00.123Z'', CustomFields = None \<rparr>]
   \<and> map_option (content \<circ> fl_file)
        (FileLogger_asyncWriter_step
           (out_logger
              (RequestLoggerWithConfig FileLogger_as_Logger (DefaultConfig\<lparr>Async := False\<rparr>)
                 example_clock (\<lambda>c. SetLogField c ''user_id'' (VString ''12345''))
                 (sync_file_logger\<lparr>fl_wg := 1\<rparr>) (example_context ''/api/users''))))
       = Some [JObj [(''method'', JStr ''GET''), (''path'', JStr ''/api/users''),
                     (''client_ip'', JStr ''192.168.1.100''),
                     (''user_agent'', JStr ''Mozilla/5.0''), (''status_code'', JInt 200),
                     (''duration_ms'', JNum 15.5),
                     (''timestamp'', JStr ''2026-02-14T10:30:00.123Z'')]]"
  by (simp add: GetLogEntry_def SetLogField_def example_context_def RequestLoggerWithConfig_def
      DefaultConfig_def DefaultTimeFormat_def example_clock_def list_Write_def NewLogEntry_def
      ctx_Set_def Let_def MarshalJSON_def omitempty_map_def json_Marshal_def
      FileLogger_as_Logger_def FileLogger_Write_def sync_file_logger_def make_chan_def
      try_send_def can_send_def FileLogger_asyncWriter_step_def try_recv_def
      FileLogger_writeEntry_def file_Write_def empty_file_def fl_report_def
      coerce_utf8_def DecodeRune_width_def)



section \<open>Properties of the sinks\<close>

subsection \<open>The flush loop on a closed channel\<close>

text \<open>
  A receive on a closed, drained channel is always ready, so the \<^verbatim>\<open>default\<close> branch of
  \<^verbatim>\<open>flushBuffer\<close> is never taken once the channel is closed. The file logger then writes
  \<^verbatim>\<open>null\<close> lines without end; the database logger dereferences the nil entry and panics.
  The writer goroutine calls \<^verbatim>\<open>flushBuffer\<close> on \<^verbatim>\<open>!ok\<close>, that is, on a closed channel, and
  \<^verbatim>\<open>Close\<close> waits for the writer: on a logger with a writer, \<^verbatim>\<open>Close\<close> of the file logger
  does not return and \<^verbatim>\<open>Close\<close> of the database logger panics.
\<close>

lemma FileLogger_flushBuffer_closed:
  "FileLogger_flushBuffer l = Some l' \<Longrightarrow> fl_bufferCh l = Some ch \<Longrightarrow> \<not> is_closed ch"
proof (induction arbitrary: ch rule: FileLogger_flushBuffer.raw_induct[rotated 1, consumes 1])
  case (1 flush l l')
  show ?case
  proof
    assume c: "is_closed ch"
    show False
    proof (cases "buf ch")
      case Nil
      with 1 c show False
        by (fastforce simp: try_recv_def FileLogger_writeEntry_def fl_report_def Let_def
            split: prod.splits option.splits sum.splits)
    next
      case (Cons x xs)
      with 1 c show False
        by (fastforce simp: try_recv_def FileLogger_writeEntry_def fl_report_def Let_def
            split: prod.splits option.splits sum.splits)
    qed
  qed
qed

lemma FileLogger_flushBuffer_diverges:
  "fl_bufferCh l = Some ch \<Longrightarrow> is_closed ch \<Longrightarrow> FileLogger_flushBuffer l = None"
  using FileLogger_flushBuffer_closed by (cases "FileLogger_flushBuffer l") auto

lemma FileLogger_asyncWriter_diverges:
  "fl_bufferCh l = Some ch \<Longrightarrow> is_closed ch \<Longrightarrow> FileLogger_asyncWriter l = None"
proof (induction "buf ch" arbitrary: l ch)
  case Nil
  then show ?case
    by (subst FileLogger_asyncWriter.simps)
       (simp add: try_recv_def FileLogger_flushBuffer_diverges)
next
  case (Cons x xs)
  from Cons(2)[symmetric] Cons(3,4) show ?case
    apply (subst FileLogger_asyncWriter.simps)
    apply (simp add: try_recv_def)
    apply (rule Cons(1)[where ch="ch\<lparr>buf := xs\<rparr>"])
    apply (auto simp: FileLogger_writeEntry_def fl_report_def Let_def
        split: prod.splits option.splits sum.splits)
    done
qed

lemma FileLogger_Close_async_never_returns:
  "\<not> fl_closed l \<Longrightarrow> fl_bufferCh l = Some ch \<Longrightarrow> \<not> is_closed ch \<Longrightarrow> 0 < fl_wg l \<Longrightarrow>
   FileLogger_Close l = None"
  by (simp add: FileLogger_Close_def FileLogger_Close_waiting_def close_chan_def Let_def
      FileLogger_asyncWriter_diverges[where ch="ch\<lparr>is_closed := True, recv_waiting := False\<rparr>"])

text \<open>
  While that \<^verbatim>\<open>Close\<close> waits, it holds the mutex: a \<^verbatim>\<open>Write\<close> (or a second \<^verbatim>\<open>Close\<close>) on the
  logger as it is then does not return either.
\<close>

lemma FileLogger_Write_behind_Close:
  "FileLogger_Write (FileLogger_Close_waiting l) entry = None
   \<and> FileLogger_Close (FileLogger_Close_waiting l) = None"
  by (simp add: FileLogger_Write_def FileLogger_Close_def FileLogger_Close_waiting_def)

lemma DBLogger_insertEntry_Some:
  "\<exists>err db. DBLogger_insertEntry l (Some e) = Inr (err, l\<lparr>dl_db := db\<rparr>)"
  by (auto simp: DBLogger_insertEntry_def Let_def split: prod.splits)

lemma dl_bufferCh_report:
  "dl_bufferCh (dl_report mk (err, l\<lparr>dl_db := db\<rparr>)) = dl_bufferCh l"
  by (simp add: dl_report_def split: option.splits)

lemma DBLogger_flushBuffer_panics:
  "dl_bufferCh l = Some ch \<Longrightarrow> is_closed ch \<Longrightarrow>
   DBLogger_flushBuffer l = Some (Inl NilPointerDereference)"
proof (induction "buf ch" arbitrary: l ch)
  case Nil
  then show ?case
    by (subst DBLogger_flushBuffer.simps) (simp add: try_recv_def DBLogger_insertEntry_def)
next
  case (Cons x xs)
  obtain err db where ins:
    "DBLogger_insertEntry (l\<lparr>dl_bufferCh := Some (ch\<lparr>buf := xs\<rparr>)\<rparr>) (Some x)
       = Inr (err, l\<lparr>dl_bufferCh := Some (ch\<lparr>buf := xs\<rparr>)\<rparr>\<lparr>dl_db := db\<rparr>)"
    using DBLogger_insertEntry_Some by blast
  have "DBLogger_flushBuffer
          (dl_report FlushFailed (err, l\<lparr>dl_bufferCh := Some (ch\<lparr>buf := xs\<rparr>)\<rparr>\<lparr>dl_db := db\<rparr>))
        = Some (Inl NilPointerDereference)"
    by (rule Cons(1)[where ch = "ch\<lparr>buf := xs\<rparr>"])
       (use Cons(2,4) in \<open>simp_all add: dl_bufferCh_report\<close>)
  with Cons(2)[symmetric] Cons(3) ins show ?case
    by (subst DBLogger_flushBuffer.simps) (simp add: try_recv_def)
qed

lemma DBLogger_asyncWriter_panics:
  "dl_bufferCh l = Some ch \<Longrightarrow> is_closed ch \<Longrightarrow>
   DBLogger_asyncWriter l = Some (Inl NilPointerDereference)"
proof (induction "buf ch" arbitrary: l ch)
  case Nil
  then show ?case
    by (subst DBLogger_asyncWriter.simps)
       (simp add: try_recv_def DBLogger_flushBuffer_panics)
next
  case (Cons x xs)
  obtain err db where ins:
    "DBLogger_insertEntry (l\<lparr>dl_bufferCh := Some (ch\<lparr>buf := xs\<rparr>)\<rparr>) (Some x)
       = Inr (err, l\<lparr>dl_bufferCh := Some (ch\<lparr>buf := xs\<rparr>)\<rparr>\<lparr>dl_db := db\<rparr>)"
    using DBLogger_insertEntry_Some by blast
  have "DBLogger_asyncWriter
          (dl_report InsertFailed (err, l\<lparr>dl_bufferCh := Some (ch\<lparr>buf := xs\<rparr>)\<rparr>\<lparr>dl_db := db\<rparr>))
        = Some (Inl NilPointerDereference)"
    by (rule Cons(1)[where ch = "ch\<lparr>buf := xs\<rparr>"])
       (use Cons(2,4) in \<open>simp_all add: dl_bufferCh_report\<close>)
  with Cons(2)[symmetric] Cons(3) ins show ?case
    by (subst DBLogger_asyncWriter.simps) (simp add: try_recv_def)
qed

lemma DBLogger_Close_async_panics:
  "\<not> dl_mu l \<Longrightarrow> \<not> dl_closed l \<Longrightarrow> dl_bufferCh l = Some ch \<Longrightarrow> \<not> is_closed ch \<Longrightarrow>
   0 < dl_wg l \<Longrightarrow> DBLogger_Close l = Some (Inl NilPointerDereference)"
  by (simp add: DBLogger_Close_def DBLogger_Close_waiting_def close_chan_def Let_def
      DBLogger_asyncWriter_panics[where ch="ch\<lparr>is_closed := True, recv_waiting := False\<rparr>"])

lemma DBLogger_Write_behind_Close:
  "DBLogger_Write (DBLogger_Close_waiting l) entry = None
   \<and> DBLogger_Close (DBLogger_Close_waiting l) = None"
  by (simp add: DBLogger_Write_def DBLogger_Close_def DBLogger_Close_waiting_def)

text \<open>
  Without a writer (wait-group counter 0) \<^verbatim>\<open>Close\<close> returns at once: it closes the channel
  and the destination and leaves the staged entries where they are.
\<close>

lemma FileLogger_Close_sync_persists_nothing:
  assumes "\<not> fl_mu l" and "\<not> fl_closed l" and "fl_bufferCh l = Some ch" and "\<not> is_closed ch"
    and "fl_wg l = 0" and "\<not> file_closed (fl_file l)"
  shows "FileLogger_Close l =
     Some (Inr (None, l\<lparr> fl_closed := True,
                         fl_bufferCh := Some (ch\<lparr>is_closed := True, recv_waiting := False\<rparr>),
                         fl_file := (fl_file l)\<lparr>file_closed := True\<rparr> \<rparr>))"
  using assms
  by (simp add: FileLogger_Close_def FileLogger_Close_waiting_def close_chan_def file_Close_def
      Let_def)

lemma DBLogger_Close_sync_persists_nothing:
  assumes "\<not> dl_mu l" and "\<not> dl_closed l" and "dl_bufferCh l = Some ch" and "\<not> is_closed ch"
    and "dl_wg l = 0"
  shows "DBLogger_Close l =
     Some (Inr (None, l\<lparr> dl_closed := True,
                         dl_bufferCh := Some (ch\<lparr>is_closed := True, recv_waiting := False\<rparr>),
                         dl_db := (dl_db l)\<lparr>db_closed := True\<rparr> \<rparr>))"
  using assms
  by (simp add: DBLogger_Close_def DBLogger_Close_waiting_def close_chan_def db_Close_def Let_def)


subsection \<open>The invariant of the loggers\<close>

text \<open>
  The constructors establish the invariant, and \<^verbatim>\<open>Write\<close>, \<^verbatim>\<open>Flush\<close>, a turn of the writer
  and \<^verbatim>\<open>Close\<close> keep it whenever they return.
\<close>

lemma NewFileLogger_inv:
  "NewFileLogger opened async bufferSize = Inr (Inr l) \<Longrightarrow> FileLogger_inv l"
  by (auto simp: NewFileLogger_def FileLogger_inv_def make_chan_def FileLogger_startAsyncWriter_def
      Let_def split: option.splits if_splits)

lemma FileLogger_Write_inv:
  "FileLogger_inv l \<Longrightarrow> FileLogger_Write l entry = Some (Inr (err, l')) \<Longrightarrow> FileLogger_inv l'"
  by (auto simp: FileLogger_inv_def FileLogger_Write_def try_send_def
      split: option.splits if_splits)

lemma fl_inv_writeEntry:
  "FileLogger_inv (l\<lparr>fl_bufferCh := Some ch\<rparr>) \<Longrightarrow>
   FileLogger_inv (fl_report mk (FileLogger_writeEntry (l\<lparr>fl_bufferCh := Some ch\<rparr>) entry))"
  by (auto simp: FileLogger_inv_def fl_report_def FileLogger_writeEntry_def file_Write_def Let_def
      split: option.splits prod.splits sum.splits)

lemma FileLogger_flushBuffer_inv:
  "FileLogger_flushBuffer l = Some l' \<Longrightarrow> FileLogger_inv l \<Longrightarrow> FileLogger_inv l'"
proof (induction rule: FileLogger_flushBuffer.raw_induct[rotated 1, consumes 1])
  case (1 flush l l')
  show ?case
  proof (cases "fl_bufferCh l")
    case None
    with 1 show ?thesis by simp
  next
    case (Some ch)
    show ?thesis
    proof (cases "try_recv ch")
      case None
      with 1 Some show ?thesis by simp
    next
      case (Some r)
      obtain entry ch' where r: "r = (entry, ch')" by (cases r)
      have "FileLogger_inv (l\<lparr>fl_bufferCh := Some ch'\<rparr>)"
        using 1(3) \<open>fl_bufferCh l = Some ch\<close> Some r
        by (auto simp: FileLogger_inv_def try_recv_def split: list.splits if_splits)
      then have "FileLogger_inv (fl_report FlushFailed
                   (FileLogger_writeEntry (l\<lparr>fl_bufferCh := Some ch'\<rparr>) entry))"
        by (rule fl_inv_writeEntry)
      moreover have "flush (fl_report FlushFailed
                   (FileLogger_writeEntry (l\<lparr>fl_bufferCh := Some ch'\<rparr>) entry)) = Some l'"
        using 1(2) \<open>fl_bufferCh l = Some ch\<close> Some r by simp
      ultimately show ?thesis using 1(1) by blast
    qed
  qed
qed

lemma FileLogger_Flush_inv:
  "FileLogger_Flush l = Some l' \<Longrightarrow> FileLogger_inv l \<Longrightarrow> FileLogger_inv l'"
  by (auto simp: FileLogger_Flush_def FileLogger_flushBuffer_inv split: option.splits)

lemma FileLogger_asyncWriter_step_inv:
  assumes "FileLogger_asyncWriter_step l = Some l'" and "FileLogger_inv l"
  shows "FileLogger_inv l'"
proof (cases "fl_wg l = 0")
  case True
  with assms show ?thesis by (simp add: FileLogger_asyncWriter_step_def)
next
  case False
  from assms(2) obtain ch where ch: "fl_bufferCh l = Some ch"
    by (auto simp: FileLogger_inv_def split: option.splits)
  show ?thesis
  proof (cases "try_recv ch")
    case None
    with assms False ch show ?thesis
      by (auto simp: FileLogger_asyncWriter_step_def FileLogger_inv_def try_recv_def
          split: list.splits if_splits)
  next
    case (Some r)
    obtain entry ch' where r: "r = (entry, ch')" by (cases r)
    show ?thesis
    proof (cases entry)
      case None
      have "is_closed ch"
        using \<open>try_recv ch = Some r\<close> r None
        by (auto simp: try_recv_def split: list.splits if_splits)
      with ch have "FileLogger_flushBuffer l = None"
        by (rule FileLogger_flushBuffer_diverges)
      with assms(1) False ch \<open>try_recv ch = Some r\<close> r None have False
        by (simp add: FileLogger_asyncWriter_step_def)
      then show ?thesis ..
    next
      case (Some e)
      have "FileLogger_inv (l\<lparr>fl_bufferCh := Some ch'\<rparr>)"
        using assms(2) ch \<open>try_recv ch = Some r\<close> r
        by (auto simp: FileLogger_inv_def try_recv_def split: list.splits if_splits)
      then have "FileLogger_inv (fl_report WriteFailed
                   (FileLogger_writeEntry (l\<lparr>fl_bufferCh := Some ch'\<rparr>) (Some e)))"
        by (rule fl_inv_writeEntry)
      with assms(1) False ch \<open>try_recv ch = Some r\<close> r Some show ?thesis
        by (simp add: FileLogger_asyncWriter_step_def)
    qed
  qed
qed

lemma FileLogger_Close_inv:
  assumes "FileLogger_Close l = Some (Inr (err, l'))" and "FileLogger_inv l"
  shows "FileLogger_inv l'"
proof (cases "fl_closed l")
  case True
  with assms show ?thesis by (auto simp: FileLogger_Close_def split: if_splits)
next
  case False
  from assms(2) obtain ch where ch: "fl_bufferCh l = Some ch" and op: "\<not> is_closed ch"
    using False by (auto simp: FileLogger_inv_def split: option.splits)
  show ?thesis
  proof (cases "fl_wg l = 0")
    case True
    with assms False ch op show ?thesis
      by (auto simp: FileLogger_Close_def FileLogger_Close_waiting_def close_chan_def file_Close_def FileLogger_inv_def Let_def
          split: if_splits)
  next
    case False
    with \<open>\<not> fl_closed l\<close> ch op have "FileLogger_Close l = None"
      by (simp add: FileLogger_Close_async_never_returns)
    with assms(1) show ?thesis by simp
  qed
qed


lemma NewDBLogger_inv:
  "NewDBLogger proc opened driver async bufferSize = Inr (Inr l) \<Longrightarrow> DBLogger_inv l"
  by (auto simp: NewDBLogger_def DBLogger_inv_def make_chan_def DBLogger_startAsyncWriter_def
      Let_def split: option.splits if_splits)

lemma DBLogger_Write_inv:
  "DBLogger_inv l \<Longrightarrow> DBLogger_Write l entry = Some (Inr (err, l')) \<Longrightarrow> DBLogger_inv l'"
  by (auto simp: DBLogger_inv_def DBLogger_Write_def try_send_def
      split: option.splits if_splits)

lemma dl_inv_insertEntry:
  "DBLogger_inv (l\<lparr>dl_bufferCh := Some ch\<rparr>) \<Longrightarrow>
   DBLogger_insertEntry (l\<lparr>dl_bufferCh := Some ch\<rparr>) entry = Inr r \<Longrightarrow>
   DBLogger_inv (dl_report mk r)"
  by (auto simp: DBLogger_inv_def dl_report_def DBLogger_insertEntry_def Let_def
      split: option.splits prod.splits)

lemma DBLogger_flushBuffer_inv:
  "DBLogger_flushBuffer l = Some (Inr l') \<Longrightarrow> DBLogger_inv l \<Longrightarrow> DBLogger_inv l'"
proof (induction l "Inr l' :: panic + DBLogger"
    rule: DBLogger_flushBuffer.raw_induct[rotated 1, consumes 1])
  case (1 flush l)
  show ?case
  proof (cases "dl_bufferCh l")
    case None
    with 1 show ?thesis by simp
  next
    case (Some ch)
    show ?thesis
    proof (cases "try_recv ch")
      case None
      with 1 Some show ?thesis by simp
    next
      case (Some r)
      obtain entry ch' where r: "r = (entry, ch')" by (cases r)
      have inv': "DBLogger_inv (l\<lparr>dl_bufferCh := Some ch'\<rparr>)"
        using 1(3) \<open>dl_bufferCh l = Some ch\<close> Some r
        by (auto simp: DBLogger_inv_def try_recv_def split: list.splits if_splits)
      show ?thesis
      proof (cases "DBLogger_insertEntry (l\<lparr>dl_bufferCh := Some ch'\<rparr>) entry")
        case (Inl p)
        with 1(2) \<open>dl_bufferCh l = Some ch\<close> Some r show ?thesis by simp
      next
        case (Inr res)
        with inv' have "DBLogger_inv (dl_report FlushFailed res)"
          by (rule dl_inv_insertEntry)
        moreover have "flush (dl_report FlushFailed res) = Some (Inr l')"
          using 1(2) \<open>dl_bufferCh l = Some ch\<close> Some r Inr by simp
        ultimately show ?thesis using 1(1) by blast
      qed
    qed
  qed
qed

lemma DBLogger_Flush_inv:
  "DBLogger_Flush l = Some (Inr l') \<Longrightarrow> DBLogger_inv l \<Longrightarrow> DBLogger_inv l'"
  by (auto simp: DBLogger_Flush_def DBLogger_flushBuffer_inv split: option.splits)

lemma DBLogger_asyncWriter_step_inv:
  assumes "DBLogger_asyncWriter_step l = Some (Inr l')" and "DBLogger_inv l"
  shows "DBLogger_inv l'"
proof (cases "dl_wg l = 0")
  case True
  with assms show ?thesis by (simp add: DBLogger_asyncWriter_step_def)
next
  case False
  from assms(2) obtain ch where ch: "dl_bufferCh l = Some ch"
    by (auto simp: DBLogger_inv_def split: option.splits)
  show ?thesis
  proof (cases "try_recv ch")
    case None
    with assms False ch show ?thesis
      by (auto simp: DBLogger_asyncWriter_step_def DBLogger_inv_def try_recv_def
          split: list.splits if_splits)
  next
    case (Some r)
    obtain entry ch' where r: "r = (entry, ch')" by (cases r)
    show ?thesis
    proof (cases entry)
      case None
      have "is_closed ch"
        using \<open>try_recv ch = Some r\<close> r None
        by (auto simp: try_recv_def split: list.splits if_splits)
      with ch have "DBLogger_flushBuffer l = Some (Inl NilPointerDereference)"
        by (rule DBLogger_flushBuffer_panics)
      with assms(1) False ch \<open>try_recv ch = Some r\<close> r None have False
        by (simp add: DBLogger_asyncWriter_step_def)
      then show ?thesis ..
    next
      case (Some e)
      have inv': "DBLogger_inv (l\<lparr>dl_bufferCh := Some ch'\<rparr>)"
        using assms(2) ch \<open>try_recv ch = Some r\<close> r
        by (auto simp: DBLogger_inv_def try_recv_def split: list.splits if_splits)
      show ?thesis
      proof (cases "DBLogger_insertEntry (l\<lparr>dl_bufferCh := Some ch'\<rparr>) (Some e)")
        case (Inl p)
        with assms(1) False ch \<open>try_recv ch = Some r\<close> r Some show ?thesis
          by (simp add: DBLogger_asyncWriter_step_def)
      next
        case (Inr res)
        with inv' have "DBLogger_inv (dl_report InsertFailed res)"
          by (rule dl_inv_insertEntry)
        with assms(1) False ch \<open>try_recv ch = Some r\<close> r Some Inr show ?thesis
          by (simp add: DBLogger_asyncWriter_step_def)
      qed
    qed
  qed
qed

lemma DBLogger_Close_inv:
  assumes "DBLogger_Close l = Some (Inr (err, l'))" and "DBLogger_inv l"
  shows "DBLogger_inv l'"
proof (cases "dl_closed l")
  case True
  with assms show ?thesis by (auto simp: DBLogger_Close_def split: if_splits)
next
  case False
  from assms(2) obtain ch where ch: "dl_bufferCh l = Some ch" and op: "\<not> is_closed ch"
    and mu: "\<not> dl_mu l"
    using False by (auto simp: DBLogger_inv_def split: option.splits)
  show ?thesis
  proof (cases "dl_wg l = 0")
    case True
    with assms False ch op show ?thesis
      by (auto simp: DBLogger_Close_def DBLogger_Close_waiting_def close_chan_def db_Close_def
          DBLogger_inv_def Let_def
          split: if_splits)
  next
    case False
    with \<open>\<not> dl_closed l\<close> ch op mu have "DBLogger_Close l = Some (Inl NilPointerDereference)"
      by (simp add: DBLogger_Close_async_panics)
    with assms(1) show ?thesis by simp
  qed
qed



text \<open>
  The logger as it is while a \<^verbatim>\<open>Close\<close> waits for the writer satisfies the invariant too, and
  on a closed logger with a writer \<^verbatim>\<open>Write\<close> does not return: the only \<^verbatim>\<open>Close\<close> that closes
  such a logger still holds the mutex.
\<close>

lemma FileLogger_Close_waiting_inv:
  "FileLogger_inv l \<Longrightarrow> \<not> fl_closed l \<Longrightarrow> 0 < fl_wg l \<Longrightarrow>
   FileLogger_inv (FileLogger_Close_waiting l)"
  by (auto simp: FileLogger_inv_def FileLogger_Close_waiting_def split: option.splits)

lemma DBLogger_Close_waiting_inv:
  "DBLogger_inv l \<Longrightarrow> \<not> dl_closed l \<Longrightarrow> 0 < dl_wg l \<Longrightarrow>
   DBLogger_inv (DBLogger_Close_waiting l)"
  by (auto simp: DBLogger_inv_def DBLogger_Close_waiting_def split: option.splits)

lemma FileLogger_Write_closed_with_writer:
  "FileLogger_inv l \<Longrightarrow> fl_closed l \<Longrightarrow> 0 < fl_wg l \<Longrightarrow> FileLogger_Write l entry = None"
  by (auto simp: FileLogger_inv_def FileLogger_Write_def split: option.splits)

lemma DBLogger_Write_closed_with_writer:
  "DBLogger_inv l \<Longrightarrow> dl_closed l \<Longrightarrow> 0 < dl_wg l \<Longrightarrow> DBLogger_Write l entry = None"
  by (auto simp: DBLogger_inv_def DBLogger_Write_def split: option.splits)

subsection \<open>Write\<close>

text \<open>With \<^verbatim>\<open>async = true\<close> the constructors return the same loggers with one writer.\<close>

lemma constructors_async:
  "NewFileLogger (Some empty_file) True 2 = Inr (Inr (sync_file_logger\<lparr>fl_wg := 1\<rparr>))
   \<and> NewDBLogger example_process (Some (example_db [] 0)) ''postgres'' True 2
       = Inr (Inr ((example_store [] 0)\<lparr>dl_wg := 1\<rparr>))"
  by (simp add: NewFileLogger_def NewDBLogger_def sync_file_logger_def example_store_def
      FileLogger_startAsyncWriter_def DBLogger_startAsyncWriter_def)




text \<open>
  After the hand-over at capacity 0 a further \<^verbatim>\<open>Write\<close>, before the writer is back at its
  receive, drops its entry.
\<close>

lemma Write_unbuffered_drop:
  "FileLogger_Write
        (sync_file_logger\<lparr>fl_wg := 1,
               fl_bufferCh := Some \<lparr> buf = [example_entry], cap = 0, is_closed = False,
                                     recv_waiting = False \<rparr>\<rparr>)
        example_entry
     = Some (Inr (None, sync_file_logger\<lparr>fl_wg := 1,
               fl_bufferCh := Some \<lparr> buf = [example_entry], cap = 0, is_closed = False,
                                     recv_waiting = False \<rparr>,
               fl_stderr := [BufferFull ''GET'' ''/api/users'']\<rparr>))"
  by (simp add: sync_file_logger_def FileLogger_Write_def try_send_def can_send_def
      example_entry_def)

text \<open>
  C1. The claim is that a logger constructed with \<^verbatim>\<open>async = false\<close> writes to its
  destination before \<^verbatim>\<open>Write\<close> returns. The source has the inline write, behind
  \<^verbatim>\<open>if l.bufferCh != nil\<close>; but both constructors make the channel whatever \<^verbatim>\<open>async\<close> is,
  so that branch is never reached. On the loggers \<^verbatim>\<open>NewFileLogger(f, false, 2)\<close> and
  \<^verbatim>\<open>NewDBLogger(d, dsn, false, 2)\<close> return, \<^verbatim>\<open>Write\<close> reports success, the entry sits in
  the channel, and the file and the table are as empty as before.
\<close>

theorem C1_sync_Write_only_stages:
  "NewFileLogger (Some empty_file) False 2 = Inr (Inr sync_file_logger)
   \<and> FileLogger_Write sync_file_logger example_entry
       = Some (Inr (None, \<lparr> fl_file = \<lparr> content = [], file_closed = False \<rparr>,
                      fl_bufferCh = Some \<lparr> buf = [example_entry], cap = 2, is_closed = False,
                                            recv_waiting = False \<rparr>,
                      fl_wg = 0, fl_closed = False, fl_mu = False, fl_stderr = [] \<rparr>))
   \<and> NewDBLogger example_process (Some (example_db [] 0)) ''postgres'' False 2
       = Inr (Inr (example_store [] 0))
   \<and> DBLogger_Write (example_store [] 0) example_entry
       = Some (Inr (None, \<lparr> dl_db = example_db [] 0, dl_driver = ''postgres'',
                      dl_tableName = ''request_logs'',
                      dl_bufferCh = Some \<lparr> buf = [example_entry], cap = 2, is_closed = False,
                                            recv_waiting = False \<rparr>,
                      dl_wg = 0, dl_closed = False, dl_mu = False, dl_stderr = [],
                      dl_proc = example_process \<rparr>))"
  by (simp add: NewFileLogger_def NewDBLogger_def sync_file_logger_def example_store_def
      empty_file_def make_chan_def FileLogger_Write_def DBLogger_Write_def try_send_def
      can_send_def)

text \<open>
  C2. The claim is that every entry staged before \<^verbatim>\<open>Close\<close> is persisted exactly once
  before \<^verbatim>\<open>Close\<close> returns, whatever the \<^verbatim>\<open>async\<close> flag. Without a writer goroutine
  (\<^verbatim>\<open>async = false\<close>) nobody drains the channel: \<^verbatim>\<open>Close\<close> on the loggers of C1, each with
  one staged entry, returns nil, the file and the store are closed, the entry is still in
  the channel, and the file and the table are empty. (With a writer, \<^verbatim>\<open>Close\<close> does not
  return at all, respectively panics: see the lemmas on the flush loop above.)
\<close>

theorem C2_Close_loses_staged_entry:
  "FileLogger_Close
      \<lparr> fl_file = \<lparr> content = [], file_closed = False \<rparr>,
        fl_bufferCh = Some \<lparr> buf = [example_entry], cap = 2, is_closed = False,
                              recv_waiting = False \<rparr>,
        fl_wg = 0, fl_closed = False, fl_mu = False, fl_stderr = [] \<rparr>
     = Some (Inr (None,
         \<lparr> fl_file = \<lparr> content = [], file_closed = True \<rparr>,
           fl_bufferCh = Some \<lparr> buf = [example_entry], cap = 2, is_closed = True,
                                 recv_waiting = False \<rparr>,
           fl_wg = 0, fl_closed = True, fl_mu = False, fl_stderr = [] \<rparr>))
   \<and> DBLogger_Close
      \<lparr> dl_db = example_db [] 0, dl_driver = ''postgres'', dl_tableName = ''request_logs'',
        dl_bufferCh = Some \<lparr> buf = [example_entry], cap = 2, is_closed = False,
                              recv_waiting = False \<rparr>,
        dl_wg = 0, dl_closed = False, dl_mu = False, dl_stderr = [], dl_proc = example_process \<rparr>
     = Some (Inr (None,
         \<lparr> dl_db = (example_db [] 0)\<lparr>db_closed := True\<rparr>, dl_driver = ''postgres'',
           dl_tableName = ''request_logs'',
           dl_bufferCh = Some \<lparr> buf = [example_entry], cap = 2, is_closed = True,
                                 recv_waiting = False \<rparr>,
           dl_wg = 0, dl_closed = True, dl_mu = False, dl_stderr = [],
           dl_proc = example_process \<rparr>))
   \<and> db_tables ((example_db [] 0)\<lparr>db_closed := True\<rparr>) ''request_logs''
       = Some \<lparr> tb_rows = [], tb_next_id = 1 \<rparr>"
  by (simp add: FileLogger_Close_def DBLogger_Close_def FileLogger_Close_waiting_def
      DBLogger_Close_waiting_def close_chan_def file_Close_def db_Close_def example_db_def
      Let_def)


section \<open>Properties of the read side\<close>

text \<open>
  On a filter text without \<^verbatim>\<open>%\<close>, \<^verbatim>\<open>_\<close> and backslash the pattern \<^verbatim>\<open>%text%\<close> matches
  exactly the paths that contain the text.
\<close>

lemma like_match_percent: "like_match ''%'' s"
  by (induction s) auto

lemma like_match_plain_prefix:
  "plain p \<Longrightarrow> like_match (p @ ''%'') s \<longleftrightarrow> prefix p s"
proof (induction p arbitrary: s)
  case Nil
  then show ?case using like_match_percent by simp
next
  case (Cons a p)
  then show ?case
    by (cases s) (auto simp: plain_def)
qed

lemma like_match_contains:
  "plain p \<Longrightarrow> like_match (''%'' @ p @ ''%'') s \<longleftrightarrow> sublist p s"
proof (induction s)
  case Nil
  then show ?case
    using like_match_plain_prefix[of p "[]"] by simp
next
  case (Cons c s)
  then show ?case
    using like_match_plain_prefix[of p "c # s"]
    by (simp add: sublist_Cons_right)
qed

text \<open>
  For such a filter text, on an open store that has the table, \<^verbatim>\<open>QueryLogs\<close> with the path
  filter alone returns the rows whose path contains the text, newest first.
\<close>

lemma QueryLogs_plain_path_filter:
  assumes "\<not> db_closed (dl_db l)" and "db_tables (dl_db l) (dl_tableName l) = Some tb"
    and "plain p" and "p \<noteq> []" and "0 \<le> limit"
  shows "QueryLogs l 0 limit [''path'' \<mapsto> AStr p] =
     Inr (map (\<lambda>r. r\<lparr>row_created_at := convertToLocalTime (dl_proc l) (row_created_at r)\<rparr>)
            (take (nat limit)
               (sort_key (\<lambda>r. - row_created_at r) [r \<leftarrow> tb_rows tb. sublist p (row_path r)])))"
  using assms like_match_contains[of p]
  by (simp add: QueryLogs_def QueryLogs_conds_def db_select_def order_limit_offset_def)

text \<open>
  Had the filter text gone through \<^verbatim>\<open>EscapeLike\<close> first, the pattern would match exactly the
  paths that contain the text, whatever characters it is made of.
\<close>

lemma EscapeLike_Nil: "EscapeLike [] = []"
  by (simp add: EscapeLike_def)

lemma EscapeLike_Cons:
  "EscapeLike (c # s) =
     (if c = CHR 0x5C \<or> c = CHR ''%'' \<or> c = CHR ''_'' then [CHR 0x5C, c] else [c]) @ EscapeLike s"
  by (simp add: EscapeLike_def)

lemma like_match_EscapeLike_prefix:
  "like_match (EscapeLike p @ rest) s \<longleftrightarrow> (\<exists>t. s = p @ t \<and> like_match rest t)"
proof (induction p arbitrary: s)
  case Nil
  then show ?case by (simp add: EscapeLike_Nil)
next
  case (Cons c p)
  show ?case
  proof (cases s)
    case Nil
    then show ?thesis by (simp add: EscapeLike_Cons)
  next
    case (Cons d s')
    with Cons.IH[of s'] show ?thesis
      by (auto simp: EscapeLike_Cons)
  qed
qed

lemma like_match_escaped_contains:
  "like_match (''%'' @ EscapeLike p @ ''%'') s \<longleftrightarrow> sublist p s"
proof (induction s)
  case Nil
  show ?case
    using like_match_EscapeLike_prefix[of p "''%''" "[]"] like_match_percent
    by auto
next
  case (Cons c s)
  have "like_match (EscapeLike p @ ''%'') (c # s) \<longleftrightarrow> prefix p (c # s)"
    using like_match_EscapeLike_prefix[of p "''%''" "c # s"] like_match_percent
    by (auto simp: prefix_def)
  with Cons show ?case
    by (simp add: sublist_Cons_right)
qed

text \<open>
  C6. The claim is that the path filter selects the rows whose path contains the filter
  text literally, with \<^verbatim>\<open>%\<close>, \<^verbatim>\<open>_\<close> and backslash matched as themselves. \<^verbatim>\<open>QueryLogs\<close> puts
  the text between two \<^verbatim>\<open>%\<close> unescaped (\<^verbatim>\<open>EscapeLike\<close> is not called), so these characters
  keep their \<^verbatim>\<open>LIKE\<close> meaning: the filter \<^verbatim>\<open>a_c\<close> returns the row with path \<^verbatim>\<open>/abc\<close>, which
  does not contain \<^verbatim>\<open>a_c\<close>, and the filter \<^verbatim>\<open>%\<close> returns a row whose path has no \<^verbatim>\<open>%\<close>.
\<close>

theorem C6_path_filter_reads_wildcards:
  "QueryLogs (example_store [example_row 1 ''GET'' ''/abc'' 200 50] 100) 0 100
       [''path'' \<mapsto> AStr ''a_c'']
     = Inr [example_row 1 ''GET'' ''/abc'' 200 50]
   \<and> \<not> sublist ''a_c'' ''/abc''
   \<and> QueryLogs (example_store [example_row 1 ''GET'' ''/abc'' 200 50] 100) 0 100
       [''path'' \<mapsto> AStr ''%'']
     = Inr [example_row 1 ''GET'' ''/abc'' 200 50]
   \<and> \<not> sublist ''%'' ''/abc''"
  by (simp add: example_store_def example_db_def example_row_def example_process_def
      QueryLogs_def QueryLogs_conds_def db_select_def order_limit_offset_def
      convertToLocalTime_def zero_time_def sublist_Cons_right)

text \<open>
  Where the filter map has neither a path nor a status code, \<^verbatim>\<open>CountLogs\<close> and \<^verbatim>\<open>QueryLogs\<close>
  build the same condition, and the count is the number of rows the query returns when its
  limit is at least the size of the table.
\<close>

lemma CountLogs_agrees_without_path_and_status:
  assumes "conditions ''path'' = None" and "conditions ''status_code'' = None"
    and "QueryLogs l 0 (int n) conditions = Inr rs" and "CountLogs l conditions = Inr k"
    and "db_tables (dl_db l) (dl_tableName l) = Some tb" and "length (tb_rows tb) \<le> n"
  shows "k = int (length rs)"
proof -
  have c: "CountLogs_conds conditions = QueryLogs_conds conditions"
    using assms(1,2) by (simp add: CountLogs_conds_def QueryLogs_conds_def)
  from assms(4) obtain sel where sel: "db_select (dl_db l) (dl_tableName l) (QueryLogs_conds conditions) = Inr sel"
    and k: "k = int (length sel)"
    by (auto simp: CountLogs_def c split: sum.splits)
  from sel assms(5) have "length sel \<le> length (tb_rows tb)"
    by (auto simp: db_select_def split: if_splits option.splits)
  with assms(6) have "length sel \<le> n" by simp
  with assms(3) sel have "length rs = length sel"
    by (auto simp: QueryLogs_def order_limit_offset_def split: sum.splits)
  with k show ?thesis by simp
qed

text \<open>
  C5. The claim is that \<^verbatim>\<open>CountLogs\<close> counts the rows \<^verbatim>\<open>QueryLogs\<close> returns for the same
  filters. \<^verbatim>\<open>CountLogs\<close> builds its condition from the method and the two time bounds only:
  on a table with one row of status 200 and one of status 404, the filter
  \<^verbatim>\<open>status_code = 404\<close> gives a count of 2 where the query returns 1 row, and so does the
  path filter \<^verbatim>\<open>/b\<close>.
\<close>

theorem C5_CountLogs_ignores_path_and_status:
  "CountLogs
      (example_store [example_row 1 ''GET'' ''/a'' 200 50, example_row 2 ''GET'' ''/b'' 404 60] 100)
      [''status_code'' \<mapsto> AInt 404] = Inr 2
   \<and> QueryLogs
      (example_store [example_row 1 ''GET'' ''/a'' 200 50, example_row 2 ''GET'' ''/b'' 404 60] 100)
      0 100 [''status_code'' \<mapsto> AInt 404] = Inr [example_row 2 ''GET'' ''/b'' 404 60]
   \<and> CountLogs
      (example_store [example_row 1 ''GET'' ''/a'' 200 50, example_row 2 ''GET'' ''/b'' 404 60] 100)
      [''path'' \<mapsto> AStr ''/b''] = Inr 2
   \<and> QueryLogs
      (example_store [example_row 1 ''GET'' ''/a'' 200 50, example_row 2 ''GET'' ''/b'' 404 60] 100)
      0 100 [''path'' \<mapsto> AStr ''/b''] = Inr [example_row 2 ''GET'' ''/b'' 404 60]"
  by (simp add: example_store_def example_db_def example_row_def example_process_def
      CountLogs_def CountLogs_conds_def QueryLogs_def QueryLogs_conds_def db_select_def
      order_limit_offset_def convertToLocalTime_def zero_time_def)



end
